theory Spec2Isabelle
  imports Main "HOL-Library.Word"
begin

section \<open>Process-data domains: the data model of master/domain.c\<close>

text \<open>
  The embedding follows the C source function by function. Conventions:
  \<^item> a struct is a record; its fields keep the source's names behind a short prefix
    (\<open>fmmu_\<close>, \<open>dp_\<close>, \<open>dom_\<close>), since several structs share field names;
  \<^item> an intrusive \<open>list_head\<close> list is a HOL list, in list order;
  \<^item> \<open>uint32_t\<close> and \<open>uint16_t\<close> values are \<open>32 word\<close> and \<open>16 word\<close>, so that
    \<open>+\<close> and \<open>-\<close> wrap as in C; \<open>size_t\<close> byte counts and \<open>unsigned int\<close> use counts are
    \<open>nat\<close> (on an LP64 kernel no sum of the 32-bit FMMU sizes formed here reaches
    the range of \<open>size_t\<close>, and a use count is at most the number of FMMUs);
  \<^item> a pointer into the process image is the offset from \<open>domain->data\<close>;
  \<^item> a call that can fail returns its \<open>int\<close> code together with the changed objects.
\<close>

type_synonym byte = "8 word"

text \<open>The two directions that index \<open>datagram_used[]\<close>.\<close>

datatype ec_direction_t = EC_DIR_OUTPUT | EC_DIR_INPUT

datatype ec_origin_t = EC_ORIG_INTERNAL | EC_ORIG_EXTERNAL

datatype ec_datagram_type_t =
  EC_DATAGRAM_FPRD | EC_DATAGRAM_FPWR | EC_DATAGRAM_LRD | EC_DATAGRAM_LWR | EC_DATAGRAM_LRW

datatype ec_device_index_t = EC_DEVICE_MAIN | EC_DEVICE_BACKUP

text \<open>
  An FMMU configuration (fmmu_config.h is not among the sources; the fields are those
  domain.c uses). \<open>fmmu_sc\<close> is the pointer to the slave configuration; only its
  identity is ever used (\<open>first_fmmu->sc == cur_fmmu->sc\<close>).
\<close>

record ec_fmmu_config_t =
  fmmu_sc :: nat
  fmmu_dir :: ec_direction_t
  fmmu_logical_start_address :: "32 word"
  fmmu_data_size :: nat

text \<open>
  Modelled from the spec: the datagram pair. The header datagram_pair.h under src/
  declares only the list node and the two datagrams, and datagram_pair.c and datagram.h
  are not among the sources, while domain.c reads \<open>expected_working_counter\<close>,
  \<open>send_buffer\<close> and the main datagram's address, size and data. The fields are those
  the spec lists (section 3): the two sibling datagrams with the same command,
  address and size, the send-staging buffer, the expected working counter and the use
  counts \<open>(n_output, n_input)\<close>. \<open>dp_main_data\<close> is the main datagram's data pointer, a
  window into the process image; the backup datagram has a payload of its own.
\<close>

record ec_datagram_pair_t =
  dp_type :: "ec_datagram_type_t option"
  dp_address :: "32 word"
  dp_data_size :: nat
  dp_main_data :: nat
  dp_backup_data :: "byte list"
  dp_send_buffer :: "byte list"
  dp_expected_working_counter :: nat
  dp_used :: "nat \<times> nat"

text \<open>
  The domain (domain.h is not among the sources; the fields are those domain.c uses,
  without the pointer to the master). \<open>dom_data = None\<close> is the NULL pointer. The two
  working counters are 16-bit, as the sum that \<open>ecrt_domain_process\<close> holds in a
  \<open>uint16_t\<close> and assigns to \<open>working_counter\<close>; the change counter is an
  \<open>unsigned int\<close>, and \<open>unsigned long\<close> jiffies are 64-bit words.
\<close>

record ec_domain_t =
  dom_index :: nat
  dom_fmmu_configs :: "ec_fmmu_config_t list"
  dom_data_size :: nat
  dom_data :: "byte list option"
  dom_data_origin :: ec_origin_t
  dom_logical_base_address :: "32 word"
  dom_datagram_pairs :: "ec_datagram_pair_t list"
  dom_working_counter :: "16 word"
  dom_expected_working_counter :: "16 word"
  dom_working_counter_changes :: "32 word"
  dom_notify_jiffies :: "64 word"

section \<open>Allocation\<close>

text \<open>
  \<open>kmalloc\<close> can fail. The allocator is the list of the outcomes of the calls to
  come (\<open>True\<close>: the call succeeds); a call takes the head, and an exhausted list fails.
  Fresh memory is indeterminate in C; the model fills it with zero bytes, and no
  theorem below depends on its contents.
\<close>

type_synonym allocator = "bool list"

fun kmalloc :: "allocator \<Rightarrow> bool \<times> allocator" where
  "kmalloc [] = (False, [])"
| "kmalloc (ok # rest) = (ok, rest)"

definition ENOMEM :: int where
  "ENOMEM = 12"

section \<open>Domain construction and registration\<close>

definition ec_domain_init :: "nat \<Rightarrow> ec_domain_t" where
  "ec_domain_init index =
     \<lparr>dom_index = index,
      dom_fmmu_configs = [],
      dom_data_size = 0,
      dom_data = None,
      dom_data_origin = EC_ORIG_INTERNAL,
      dom_logical_base_address = 0,
      dom_datagram_pairs = [],
      dom_working_counter = 0,
      dom_expected_working_counter = 0,
      dom_working_counter_changes = 0,
      dom_notify_jiffies = 0\<rparr>"

definition ec_domain_add_fmmu_config :: "ec_domain_t \<Rightarrow> ec_fmmu_config_t \<Rightarrow> ec_domain_t" where
  "ec_domain_add_fmmu_config domain fmmu =
     domain\<lparr>dom_data_size := dom_data_size domain + fmmu_data_size fmmu,
            dom_fmmu_configs := dom_fmmu_configs domain @ [fmmu]\<rparr>"

section \<open>Emitting a datagram pair\<close>

text \<open>
  Modelled from the spec: the table of section 4.2, which \<open>ec_datagram_pair_init\<close>
  (datagram_pair.c, not among the sources) applies to the use counts. The table has
  no command and no counter for \<open>used = (0, 0)\<close>; that row is \<open>None\<close>.
\<close>

definition pair_command :: "nat \<times> nat \<Rightarrow> (ec_datagram_type_t \<times> nat) option" where
  "pair_command used =
     (case used of (n_output, n_input) \<Rightarrow>
        if n_output = 0 \<and> n_input = 0 then None
        else if n_output = 0 then Some (EC_DATAGRAM_LRD, n_input)
        else if n_input = 0 then Some (EC_DATAGRAM_LWR, n_output)
        else Some (EC_DATAGRAM_LRW, 3 * n_output + n_input))"

text \<open>
  Modelled from the spec: \<open>ec_datagram_pair_init\<close>, absent from src/. It builds the
  two sibling datagrams for the logical address and size it is given, the main one
  pointing into the process image, allocates the pair's own buffers (one allocator
  outcome; "allocation failure returns the appropriate error") and sets command and
  expected working counter from the table. Where the table has no row, the pair gets
  no command and the expected working counter 0.
\<close>

definition ec_datagram_pair_init ::
  "allocator \<Rightarrow> 32 word \<Rightarrow> nat \<Rightarrow> nat \<Rightarrow> nat \<times> nat \<Rightarrow> (int + ec_datagram_pair_t) \<times> allocator" where
  "ec_datagram_pair_init a logical_offset data data_size used =
     (case kmalloc a of
        (False, a') \<Rightarrow> (Inl (- ENOMEM), a')
      | (True, a') \<Rightarrow>
          (Inr \<lparr>dp_type = map_option fst (pair_command used),
                dp_address = logical_offset,
                dp_data_size = data_size,
                dp_main_data = data,
                dp_backup_data = replicate data_size 0,
                dp_send_buffer = replicate data_size 0,
                dp_expected_working_counter =
                  (case pair_command used of None \<Rightarrow> 0 | Some (c, wc) \<Rightarrow> wc),
                dp_used = used\<rparr>, a'))"

text \<open>
  \<open>ec_domain_add_datagram_pair\<close> (domain.c:139): allocate the pair, initialise it, add
  its expected working counter to the domain's 16-bit counter and append it.
\<close>

definition ec_domain_add_datagram_pair ::
  "allocator \<Rightarrow> ec_domain_t \<Rightarrow> 32 word \<Rightarrow> nat \<Rightarrow> nat \<Rightarrow> nat \<times> nat
     \<Rightarrow> int \<times> ec_domain_t \<times> allocator" where
  "ec_domain_add_datagram_pair a domain logical_offset data_size data used =
     (case kmalloc a of
        (False, a1) \<Rightarrow> (- ENOMEM, domain, a1)
      | (True, a1) \<Rightarrow>
          (case ec_datagram_pair_init a1 logical_offset data data_size used of
             (Inl ret, a2) \<Rightarrow> (ret, domain, a2)
           | (Inr datagram_pair, a2) \<Rightarrow>
               (0,
                domain\<lparr>dom_expected_working_counter :=
                         dom_expected_working_counter domain
                           + of_nat (dp_expected_working_counter datagram_pair),
                       dom_datagram_pairs := dom_datagram_pairs domain @ [datagram_pair]\<rparr>,
                a2)))"

section \<open>Finishing a domain\<close>

text \<open>
  \<open>shall_count\<close> (domain.c:185) walks the list from \<open>first_fmmu\<close> to \<open>cur_fmmu\<close>,
  exclusive. The second argument is that segment of the list: the nodes from
  \<open>first_fmmu\<close> up to, not including, \<open>cur_fmmu\<close>.
\<close>

fun shall_count :: "ec_fmmu_config_t \<Rightarrow> ec_fmmu_config_t list \<Rightarrow> bool" where
  "shall_count cur_fmmu [] = True"
| "shall_count cur_fmmu (first_fmmu # others) =
     (if fmmu_sc first_fmmu = fmmu_sc cur_fmmu \<and> fmmu_dir first_fmmu = fmmu_dir cur_fmmu
      then False
      else shall_count cur_fmmu others)"

text \<open>\<open>datagram_used[dir]++\<close>, the array being the pair \<open>(used[OUTPUT], used[INPUT])\<close>.\<close>

fun used_incr :: "ec_direction_t \<Rightarrow> nat \<times> nat \<Rightarrow> nat \<times> nat" where
  "used_incr EC_DIR_OUTPUT (n_output, n_input) = (n_output + 1, n_input)"
| "used_incr EC_DIR_INPUT (n_output, n_input) = (n_output, n_input + 1)"

text \<open>
  The local variables of \<open>ec_domain_finish\<close>. \<open>datagram_first_fmmu\<close> is kept as the
  list segment that starts at the node it points to and ends before the loop cursor,
  which is what \<open>shall_count\<close> walks. (It is NULL only for an empty list, where the
  loop body never runs.)
\<close>

record finish_vars =
  datagram_offset :: "32 word"
  datagram_size :: nat
  datagram_count :: nat
  datagram_used :: "nat \<times> nat"
  datagram_first_fmmu :: "ec_fmmu_config_t list"

text \<open>
  The loop \<open>list_for_each_entry(fmmu, &domain->fmmu_configs, list)\<close> of
  \<open>ec_domain_finish\<close> (domain.c:257-287). \<open>i\<close> is the position of the cursor in the
  domain's list and the list argument holds the nodes from the cursor on; each FMMU is
  rewritten in place. The first component of the result is 0 when the loop runs to its
  end and the negative code of the early \<open>return ret\<close> otherwise.
\<close>

fun finish_fmmus ::
  "nat \<Rightarrow> 32 word \<Rightarrow> nat \<Rightarrow> ec_fmmu_config_t list \<Rightarrow> finish_vars \<Rightarrow> ec_domain_t \<Rightarrow> allocator
     \<Rightarrow> int \<times> finish_vars \<times> ec_domain_t \<times> allocator" where
  "finish_fmmus EC_MAX_DATA_SIZE base_address i [] v domain a = (0, v, domain, a)"
| "finish_fmmus EC_MAX_DATA_SIZE base_address i (fmmu0 # rest) v0 domain0 a =
     (let fmmu = fmmu0\<lparr>fmmu_logical_start_address :=
                        fmmu_logical_start_address fmmu0 + base_address\<rparr>;
          domain = domain0\<lparr>dom_fmmu_configs := (dom_fmmu_configs domain0)[i := fmmu]\<rparr>;
          v = (if shall_count fmmu (datagram_first_fmmu v0)
               then v0\<lparr>datagram_used := used_incr (fmmu_dir fmmu) (datagram_used v0)\<rparr>
               else v0)
      in if datagram_size v + fmmu_data_size fmmu > EC_MAX_DATA_SIZE then
           (case ec_domain_add_datagram_pair a domain
                   (dom_logical_base_address domain + datagram_offset v)
                   (datagram_size v) (unat (datagram_offset v)) (datagram_used v) of
              (ret, domain', a') \<Rightarrow>
                if ret < 0 then (ret, v, domain', a')
                else finish_fmmus EC_MAX_DATA_SIZE base_address (i + 1) rest
                       \<lparr>datagram_offset = datagram_offset v + of_nat (datagram_size v),
                        datagram_size = 0 + fmmu_data_size fmmu,
                        datagram_count = datagram_count v + 1,
                        datagram_used = (0, 0),
                        datagram_first_fmmu = [fmmu]\<rparr>
                       domain' a')
         else finish_fmmus EC_MAX_DATA_SIZE base_address (i + 1) rest
                (v\<lparr>datagram_size := datagram_size v + fmmu_data_size fmmu,
                   datagram_first_fmmu := datagram_first_fmmu v @ [fmmu]\<rparr>)
                domain a)"

text \<open>
  The first step of \<open>ec_domain_finish\<close> (domain.c:232-240): the process image is
  allocated when the domain has data and owns its memory. On failure \<open>domain->data\<close>
  has been assigned NULL.
\<close>

definition finish_alloc :: "allocator \<Rightarrow> ec_domain_t \<Rightarrow> bool \<times> ec_domain_t \<times> allocator" where
  "finish_alloc a domain =
     (if dom_data_size domain \<noteq> 0 \<and> dom_data_origin domain = EC_ORIG_INTERNAL
      then (case kmalloc a of
              (ok, a') \<Rightarrow>
                (ok,
                 domain\<lparr>dom_data :=
                   (if ok then Some (replicate (dom_data_size domain) 0) else None)\<rparr>,
                 a'))
      else (True, domain, a))"

text \<open>The locals as initialised before the loop (domain.c:246-255).\<close>

definition finish_vars0 :: finish_vars where
  "finish_vars0 =
     \<lparr>datagram_offset = 0, datagram_size = 0, datagram_count = 0,
      datagram_used = (0, 0), datagram_first_fmmu = []\<rparr>"

text \<open>
  \<open>ec_domain_finish\<close> (domain.c:216). \<open>EC_MAX_DATA_SIZE\<close> is defined in globals.h,
  which is not among the sources, and is a parameter here. The result is the return
  value, the domain as the call leaves it (partially packed after a failure) and the
  allocator.
\<close>

definition ec_domain_finish ::
  "allocator \<Rightarrow> nat \<Rightarrow> ec_domain_t \<Rightarrow> 32 word \<Rightarrow> int \<times> ec_domain_t \<times> allocator" where
  "ec_domain_finish a EC_MAX_DATA_SIZE domain0 base_address =
     (case finish_alloc a (domain0\<lparr>dom_logical_base_address := base_address\<rparr>) of
        (allocated, domain, a1) \<Rightarrow>
          if \<not> allocated then (- ENOMEM, domain, a1)
          else
            (case finish_fmmus EC_MAX_DATA_SIZE base_address 0 (dom_fmmu_configs domain)
                    finish_vars0 domain a1 of
               (ret, v, domain2, a2) \<Rightarrow>
                 if ret < 0 then (ret, domain2, a2)
                 else if datagram_size v \<noteq> 0 then
                   (case ec_domain_add_datagram_pair a2 domain2
                           (dom_logical_base_address domain2 + datagram_offset v)
                           (datagram_size v) (unat (datagram_offset v)) (datagram_used v) of
                      (ret, domain3, a3) \<Rightarrow>
                        if ret < 0 then (ret, domain3, a3) else (0, domain3, a3))
                 else (0, domain2, a2)))"

section \<open>The cyclic path: memory\<close>

text \<open>
  The process image is the byte list behind \<open>domain->data\<close>; behind NULL no byte can
  be accessed. The main datagram of a pair reads and writes the image at
  \<open>dp_main_data\<close>; the backup datagram and the send buffer are buffers of the pair.
\<close>

definition process_image :: "ec_domain_t \<Rightarrow> byte list" where
  "process_image domain = (case dom_data domain of None \<Rightarrow> [] | Some bytes \<Rightarrow> bytes)"

text \<open>
  An access of \<open>n\<close> bytes at an offset of a buffer. C leaves an access outside the
  buffer undefined; here it is \<open>None\<close>, and the callers turn it into a fault.
\<close>

definition window :: "byte list \<Rightarrow> nat \<Rightarrow> nat \<Rightarrow> byte list option" where
  "window buf off n = (if off + n \<le> length buf then Some (take n (drop off buf)) else None)"

definition memcpy :: "byte list \<Rightarrow> nat \<Rightarrow> byte list \<Rightarrow> nat \<Rightarrow> nat \<Rightarrow> byte list option" where
  "memcpy dst d src s n =
     (if d + n \<le> length dst \<and> s + n \<le> length src
      then Some (take d dst @ take n (drop s src) @ drop (d + n) dst)
      else None)"

text \<open>
  The ways the cyclic functions leave defined behaviour: \<open>datagram_pair\<close> is
  dereferenced while NULL, the walk \<open>datagram_pair->list.next\<close> leaves the last pair
  (and reads the list head as if it were a pair), or a buffer is accessed outside its
  bounds.
\<close>

datatype process_fault = NULL_DATAGRAM_PAIR | PAIR_LIST_END | OUT_OF_BOUNDS

section \<open>Queueing a domain\<close>

text \<open>
  One iteration of the loop of \<open>ecrt_domain_queue\<close> (domain.c:539-555): the two
  \<open>memcpy\<close> calls from the main datagram's data, of the main datagram's size.
\<close>

definition queue_pair :: "byte list \<Rightarrow> ec_datagram_pair_t \<Rightarrow> ec_datagram_pair_t option" where
  "queue_pair img datagram_pair =
     (case memcpy (dp_send_buffer datagram_pair) 0 img (dp_main_data datagram_pair)
             (dp_data_size datagram_pair) of
        None \<Rightarrow> None
      | Some send_buffer \<Rightarrow>
          (case memcpy (dp_backup_data datagram_pair) 0 img (dp_main_data datagram_pair)
                  (dp_data_size datagram_pair) of
             None \<Rightarrow> None
           | Some backup_data \<Rightarrow>
               Some (datagram_pair\<lparr>dp_send_buffer := send_buffer,
                                    dp_backup_data := backup_data\<rparr>)))"

fun queue_pairs ::
  "byte list \<Rightarrow> ec_datagram_pair_t list \<Rightarrow> process_fault + ec_datagram_pair_t list" where
  "queue_pairs img [] = Inr []"
| "queue_pairs img (datagram_pair # rest) =
     (case queue_pair img datagram_pair of
        None \<Rightarrow> Inl OUT_OF_BOUNDS
      | Some queued \<Rightarrow>
          (case queue_pairs img rest of
             Inl fault \<Rightarrow> Inl fault
           | Inr rest' \<Rightarrow> Inr (queued # rest')))"

text \<open>
  \<open>ecrt_domain_queue\<close> (domain.c:534). \<open>ec_master_queue_datagram\<close> belongs to the master
  (not among the sources); the calls are returned as the list of the datagrams handed
  over, each the position of its pair and its device index.
\<close>

definition ecrt_domain_queue ::
  "ec_domain_t \<Rightarrow> process_fault + (ec_domain_t \<times> (nat \<times> ec_device_index_t) list)" where
  "ecrt_domain_queue domain =
     (case queue_pairs (process_image domain) (dom_datagram_pairs domain) of
        Inl fault \<Rightarrow> Inl fault
      | Inr pairs \<Rightarrow>
          Inr (domain\<lparr>dom_datagram_pairs := pairs\<rparr>,
               concat (map (\<lambda>i. [(i, EC_DEVICE_MAIN), (i, EC_DEVICE_BACKUP)])
                           [0 ..< length pairs])))"

section \<open>Processing a domain\<close>

text \<open>
  Modelled from the spec: \<open>ec_datagram_pair_data_changed\<close> (datagram_pair.c, not among
  the sources) tells whether the window of a sibling's payload "differs from the
  staged send copy" (section 4.4). The first argument is the process image, which
  holds the main sibling's payload.
\<close>

definition ec_datagram_pair_data_changed ::
  "byte list \<Rightarrow> ec_datagram_pair_t \<Rightarrow> nat \<Rightarrow> nat \<Rightarrow> ec_device_index_t \<Rightarrow> bool option" where
  "ec_datagram_pair_data_changed img pair offset n dev_idx =
     (case window (dp_send_buffer pair) offset n of
        None \<Rightarrow> None
      | Some sent \<Rightarrow>
          (case (case dev_idx of
                   EC_DEVICE_MAIN \<Rightarrow> window img (dp_main_data pair + offset) n
                 | EC_DEVICE_BACKUP \<Rightarrow> window (dp_backup_data pair) offset n) of
             None \<Rightarrow> None
           | Some received \<Rightarrow> Some (received \<noteq> sent)))"

text \<open>
  The redundancy decision of \<open>ecrt_domain_process\<close> for one input FMMU
  (domain.c:492-506), on the image. \<open>data_size\<close> is \<open>fmmu->data_size\<close>.
\<close>

definition merge_fmmu ::
  "byte list \<Rightarrow> ec_datagram_pair_t \<Rightarrow> nat \<Rightarrow> nat \<Rightarrow> nat \<Rightarrow> byte list option" where
  "merge_fmmu img datagram_pair offset data_size datagram_pair_wc =
     (case ec_datagram_pair_data_changed img datagram_pair offset data_size
             EC_DEVICE_MAIN of
        None \<Rightarrow> None
      | Some True \<Rightarrow> Some img
      | Some False \<Rightarrow>
          (case ec_datagram_pair_data_changed img datagram_pair offset data_size
                  EC_DEVICE_BACKUP of
             None \<Rightarrow> None
           | Some changed \<Rightarrow>
               if changed \<or> datagram_pair_wc = dp_expected_working_counter datagram_pair
               then memcpy img (dp_main_data datagram_pair + offset)
                      (dp_backup_data datagram_pair) offset data_size
               else Some img))"

text \<open>
  The locals of \<open>ecrt_domain_process\<close> that live across loop iterations, and the
  bytes of the process image (\<open>domain_data\<close>). \<open>datagram_pair\<close> is the pair the
  pointer designates (\<open>None\<close>: NULL), \<open>next_pairs\<close> the list nodes after it, and
  \<open>fmmu_ptr\<close> the loop cursor \<open>fmmu\<close>.
\<close>

record process_vars =
  working_counter_sum :: "16 word"
  datagram_pair :: "ec_datagram_pair_t option"
  next_pairs :: "ec_datagram_pair_t list"
  fmmu_ptr :: "ec_fmmu_config_t option"
  datagram_pair_wc :: nat
  domain_data :: "byte list"

text \<open>
  The locals at the entry of \<open>ecrt_domain_process\<close> (domain.c:420-432):
  \<open>datagram_pair\<close> is initialised with NULL and \<open>datagram_pair_wc\<close> with 0, the sum is
  set to 0, and the pointer \<open>fmmu\<close> (\<open>fmmu_ptr\<close>) is declared without initialiser:
  \<open>None\<close> says that nothing has been assigned to it yet.
\<close>

definition process_vars0 :: "ec_domain_t \<Rightarrow> process_vars" where
  "process_vars0 domain =
     \<lparr>working_counter_sum = 0, datagram_pair = None, next_pairs = [], fmmu_ptr = None,
      datagram_pair_wc = 0, domain_data = process_image domain\<rparr>"

text \<open>
  The block before the loop (domain.c:434-449). \<open>ec_datagram_pair_process\<close>
  (datagram_pair.c, not among the sources) yields the pair's aggregate working counter;
  it is the parameter \<open>pair_process\<close>. When the pair list is not empty the block
  evaluates \<open>fmmu->logical_start_address\<close> (line 442): the first component of the
  result says whether that read went through a pointer nothing had been assigned to.
  C leaves such a read undefined. The value read only goes into \<open>datagram_offset\<close>,
  which line 464 overwrites before its first use, so the model goes on as the
  compiled code does when the read does not trap.
\<close>

definition process_first ::
  "(ec_datagram_pair_t \<Rightarrow> nat) \<Rightarrow> ec_domain_t \<Rightarrow> bool \<times> process_vars" where
  "process_first pair_process domain =
     (let v = process_vars0 domain in
      case dom_datagram_pairs domain of
        [] \<Rightarrow> (False, v)
      | first # rest \<Rightarrow>
          (fmmu_ptr v = None,
           v\<lparr>datagram_pair := Some first, next_pairs := rest,
             datagram_pair_wc := pair_process first,
             working_counter_sum := working_counter_sum v + of_nat (pair_process first)\<rparr>))"

text \<open>
  The \<open>while (datagram_offset >= datagram_size)\<close> loop (domain.c:461-482) from the
  pair \<open>cur\<close>: \<open>datagram_offset\<close> is the 32-bit difference of the FMMU's address and
  the pair's. The result is the pair the loop stops at, with the nodes after it, its
  working counter and the sum.
\<close>

fun seek_pair ::
  "(ec_datagram_pair_t \<Rightarrow> nat) \<Rightarrow> 32 word \<Rightarrow> ec_datagram_pair_t list \<Rightarrow> ec_datagram_pair_t
     \<Rightarrow> nat \<Rightarrow> 16 word
     \<Rightarrow> process_fault + (ec_datagram_pair_t \<times> ec_datagram_pair_t list \<times> nat \<times> 16 word)" where
  "seek_pair pair_process logical_start_address [] cur wc wc_sum =
     (if unat (logical_start_address - dp_address cur) \<ge> dp_data_size cur
      then Inl PAIR_LIST_END
      else Inr (cur, [], wc, wc_sum))"
| "seek_pair pair_process logical_start_address (nxt # rest) cur wc wc_sum =
     (if unat (logical_start_address - dp_address cur) \<ge> dp_data_size cur
      then seek_pair pair_process logical_start_address rest nxt
             (pair_process nxt) (wc_sum + of_nat (pair_process nxt))
      else Inr (cur, nxt # rest, wc, wc_sum))"

text \<open>
  The body of the loop over the FMMU configurations (domain.c:452-507), for the list
  node \<open>fmmu\<close> that the loop has assigned to the cursor.
\<close>

definition process_fmmu ::
  "(ec_datagram_pair_t \<Rightarrow> nat) \<Rightarrow> ec_fmmu_config_t \<Rightarrow> process_vars
     \<Rightarrow> process_fault + process_vars" where
  "process_fmmu pair_process fmmu v0 =
     (let v = v0\<lparr>fmmu_ptr := Some fmmu\<rparr> in
      if fmmu_dir fmmu \<noteq> EC_DIR_INPUT then Inr v
      else
        (case datagram_pair v of
           None \<Rightarrow> Inl NULL_DATAGRAM_PAIR
         | Some cur \<Rightarrow>
             (case seek_pair pair_process (fmmu_logical_start_address fmmu) (next_pairs v)
                     cur (datagram_pair_wc v) (working_counter_sum v) of
                Inl fault \<Rightarrow> Inl fault
              | Inr (pair, rest, wc, wc_sum) \<Rightarrow>
                  (case merge_fmmu (domain_data v) pair
                          (unat (fmmu_logical_start_address fmmu - dp_address pair))
                          (fmmu_data_size fmmu) wc of
                     None \<Rightarrow> Inl OUT_OF_BOUNDS
                   | Some img \<Rightarrow>
                       Inr (v\<lparr>working_counter_sum := wc_sum, datagram_pair := Some pair,
                              next_pairs := rest, datagram_pair_wc := wc,
                              domain_data := img\<rparr>)))))"

fun process_fmmus ::
  "(ec_datagram_pair_t \<Rightarrow> nat) \<Rightarrow> ec_fmmu_config_t list \<Rightarrow> process_vars
     \<Rightarrow> process_fault + process_vars" where
  "process_fmmus pair_process [] v = Inr v"
| "process_fmmus pair_process (fmmu # rest) v =
     (case process_fmmu pair_process fmmu v of
        Inl fault \<Rightarrow> Inl fault
      | Inr v' \<Rightarrow> process_fmmus pair_process rest v')"

text \<open>
  The end of \<open>ecrt_domain_process\<close> (domain.c:509-529): the working counter and its
  change counter, and the notification once \<open>HZ\<close> jiffies have passed. \<open>jiffies\<close> and
  \<open>HZ\<close> belong to the kernel and are parameters.
\<close>

definition process_working_counter :: "64 word \<Rightarrow> 64 word \<Rightarrow> 16 word \<Rightarrow> ec_domain_t \<Rightarrow> ec_domain_t" where
  "process_working_counter jiffies HZ wc_sum domain0 =
     (let domain =
            (if wc_sum \<noteq> dom_working_counter domain0
             then domain0\<lparr>dom_working_counter_changes := dom_working_counter_changes domain0 + 1,
                          dom_working_counter := wc_sum\<rparr>
             else domain0)
      in if dom_working_counter_changes domain \<noteq> 0
            \<and> jiffies - dom_notify_jiffies domain > HZ
         then domain\<lparr>dom_notify_jiffies := jiffies, dom_working_counter_changes := 0\<rparr>
         else domain)"

text \<open>
  \<open>ecrt_domain_process\<close> (domain.c:418): whether the unassigned \<open>fmmu\<close> was read, and
  the domain after the call or the fault that ends defined behaviour.
\<close>

record process_result =
  uninitialised_fmmu_read :: bool
  outcome :: "process_fault + ec_domain_t"

definition ecrt_domain_process ::
  "(ec_datagram_pair_t \<Rightarrow> nat) \<Rightarrow> 64 word \<Rightarrow> 64 word \<Rightarrow> ec_domain_t \<Rightarrow> process_result" where
  "ecrt_domain_process pair_process jiffies HZ domain =
     (case process_first pair_process domain of
        (fmmu_read, v0) \<Rightarrow>
          \<lparr>uninitialised_fmmu_read = fmmu_read,
           outcome =
             (case process_fmmus pair_process (dom_fmmu_configs domain) v0 of
                Inl fault \<Rightarrow> Inl fault
              | Inr v \<Rightarrow>
                  Inr (process_working_counter jiffies HZ (working_counter_sum v)
                         (domain\<lparr>dom_data := map_option (\<lambda>old. domain_data v) (dom_data domain)\<rparr>)))\<rparr>)"

section \<open>The slave request state machine (master/fsm_slave.c)\<close>

datatype ec_internal_request_state_t =
  EC_INT_REQUEST_INIT | EC_INT_REQUEST_QUEUED | EC_INT_REQUEST_BUSY
  | EC_INT_REQUEST_SUCCESS | EC_INT_REQUEST_FAILURE

datatype ec_datagram_state_t =
  EC_DATAGRAM_INIT | EC_DATAGRAM_QUEUED | EC_DATAGRAM_SENT | EC_DATAGRAM_RECEIVED
  | EC_DATAGRAM_TIMED_OUT | EC_DATAGRAM_ERROR

text \<open>
  Modelled from the spec: \<open>ec_slave_state_t\<close> is declared in globals.h, which is not
  among the sources. The spec's glossary gives the AL state as one of INIT, PREOP,
  SAFEOP and OP, optionally with the ACK_ERR flag. \<open>current_state & EC_SLAVE_STATE_ACK_ERR\<close>
  is the field \<open>ack_err\<close>, and \<open>current_state == EC_SLAVE_STATE_INIT\<close> is INIT with the
  flag clear.
\<close>

datatype ec_al_state_t =
  EC_SLAVE_STATE_INIT | EC_SLAVE_STATE_PREOP | EC_SLAVE_STATE_SAFEOP | EC_SLAVE_STATE_OP

record ec_slave_state_t =
  al_state :: ec_al_state_t
  ack_err :: bool

text \<open>
  The datagram the state machine borrows, and a register request (datagram.h and
  reg_request.h are not among the sources; the fields are those fsm_slave.c uses).
  \<open>dg_address\<close> is station address and memory address.
\<close>

record ec_datagram_t =
  dg_type :: ec_datagram_type_t
  dg_address :: "16 word \<times> 16 word"
  dg_data :: "byte list"
  dg_data_size :: nat
  dg_device_index :: nat
  dg_state :: ec_datagram_state_t
  dg_working_counter :: "16 word"

record ec_reg_request_t =
  reg_dir :: ec_direction_t
  reg_address :: "16 word"
  reg_transfer_size :: nat
  reg_data :: "byte list"
  reg_state :: ec_internal_request_state_t

text \<open>
  \<open>fsm->state\<close> is a function pointer; its values are the six state functions.
\<close>

datatype fsm_state_t =
  state_idle | state_ready | state_sdo_request | state_reg_request | state_foe_request
  | state_soe_request

text \<open>
  The wait queues of the slave, and the calls the state machine makes into code that
  is not among the sources (the scheduler, the master and the three protocol state
  machines), recorded in the order they are made. A request is named by its address.
\<close>

datatype wait_queue_t = sdo_queue | reg_queue | foe_queue | soe_queue

datatype fsm_call =
  wake_up wait_queue_t
  | ec_master_queue_external_datagram
  | ec_fsm_coe_transfer nat | ec_fsm_coe_exec
  | ec_fsm_foe_transfer nat | ec_fsm_foe_exec
  | ec_fsm_soe_transfer nat | ec_fsm_soe_exec

text \<open>
  What a protocol state machine answers in one step: \<open>sub_exec\<close> is the result of its
  \<open>exec\<close> (true: it is still running) and \<open>sub_success\<close> that of its \<open>success\<close>.
\<close>

record sub_fsm_t =
  sub_exec :: bool
  sub_success :: bool

text \<open>
  The state machine (fsm_slave.h is not among the sources; the fields are those
  fsm_slave.c uses) together with the objects it reaches: its own fields
  (\<open>fsm_\<close>), its datagram, the fields of \<open>fsm->slave\<close> (\<open>slave_\<close>; \<open>slave_config\<close> is
  \<open>slave->config\<close> with the list \<open>config->reg_requests\<close>, \<open>None\<close> for NULL), the
  request objects by address, and the calls made so far. \<open>null_dereference\<close> records
  that a state function wrote through a request pointer that was NULL.
\<close>

record fsm_world =
  fsm_state :: fsm_state_t
  fsm_sdo_request :: "nat option"
  fsm_reg_request :: "nat option"
  fsm_foe_request :: "nat option"
  fsm_soe_request :: "nat option"
  fsm_datagram :: ec_datagram_t
  slave_current_state :: ec_slave_state_t
  slave_station_address :: "16 word"
  slave_device_index :: nat
  slave_config :: "nat list option"
  slave_sdo_requests :: "nat list"
  slave_reg_requests :: "nat list"
  slave_foe_requests :: "nat list"
  slave_soe_requests :: "nat list"
  sdo_request_state :: "nat \<Rightarrow> ec_internal_request_state_t"
  foe_request_state :: "nat \<Rightarrow> ec_internal_request_state_t"
  soe_request_state :: "nat \<Rightarrow> ec_internal_request_state_t"
  reg_request :: "nat \<Rightarrow> ec_reg_request_t"
  calls :: "fsm_call list"
  null_dereference :: bool

definition call :: "fsm_call \<Rightarrow> fsm_world \<Rightarrow> fsm_world" where
  "call c w = w\<lparr>calls := calls w @ [c]\<rparr>"

text \<open>
  \<open>ec_fsm_slave_init\<close> (fsm_slave.c:60). It assigns the slave, the datagram (with
  size 0) and the state, and leaves the four request pointers as they were.
\<close>

definition ec_fsm_slave_init :: "fsm_world \<Rightarrow> fsm_world" where
  "ec_fsm_slave_init w =
     w\<lparr>fsm_datagram := (fsm_datagram w)\<lparr>dg_data_size := 0\<rparr>, fsm_state := state_idle\<rparr>"

definition ec_fsm_slave_ready :: "fsm_world \<Rightarrow> fsm_world" where
  "ec_fsm_slave_ready w =
     (if fsm_state w = state_idle then w\<lparr>fsm_state := state_ready\<rparr> else w)"

definition ec_fsm_slave_state_idle :: "fsm_world \<Rightarrow> fsm_world" where
  "ec_fsm_slave_state_idle w = w"

text \<open>\<open>ec_fsm_slave_action_process_sdo\<close> (fsm_slave.c:178).\<close>

definition ec_fsm_slave_action_process_sdo :: "fsm_world \<Rightarrow> int \<times> fsm_world" where
  "ec_fsm_slave_action_process_sdo w0 =
     (case slave_sdo_requests w0 of
        [] \<Rightarrow> (0, w0)
      | request # rest \<Rightarrow>
          (let w = w0\<lparr>slave_sdo_requests := rest\<rparr> in
           if ack_err (slave_current_state w) then
             (0, (call (wake_up sdo_queue)
                    (w\<lparr>sdo_request_state :=
                         (sdo_request_state w)(request := EC_INT_REQUEST_FAILURE)\<rparr>))
                  \<lparr>fsm_sdo_request := None, fsm_state := state_idle\<rparr>)
           else if al_state (slave_current_state w) = EC_SLAVE_STATE_INIT then
             (0, (call (wake_up sdo_queue)
                    (w\<lparr>sdo_request_state :=
                         (sdo_request_state w)(request := EC_INT_REQUEST_FAILURE)\<rparr>))
                  \<lparr>fsm_sdo_request := None, fsm_state := state_idle\<rparr>)
           else
             (1, call ec_master_queue_external_datagram
                   (call ec_fsm_coe_exec
                      (call (ec_fsm_coe_transfer request)
                         (w\<lparr>sdo_request_state :=
                              (sdo_request_state w)(request := EC_INT_REQUEST_BUSY),
                            fsm_sdo_request := Some request,
                            fsm_state := state_sdo_request\<rparr>))))))"

text \<open>\<open>ec_fsm_slave_state_sdo_request\<close> (fsm_slave.c:228).\<close>

definition ec_fsm_slave_state_sdo_request :: "sub_fsm_t \<Rightarrow> fsm_world \<Rightarrow> fsm_world" where
  "ec_fsm_slave_state_sdo_request sub w0 =
     (let w = call ec_fsm_coe_exec w0 in
      if sub_exec sub then call ec_master_queue_external_datagram w
      else
        (case fsm_sdo_request w of
           None \<Rightarrow> w\<lparr>null_dereference := True\<rparr>
         | Some request \<Rightarrow>
             (call (wake_up sdo_queue)
                (w\<lparr>sdo_request_state :=
                     (sdo_request_state w)
                       (request := (if \<not> sub_success sub then EC_INT_REQUEST_FAILURE
                                    else EC_INT_REQUEST_SUCCESS))\<rparr>))
               \<lparr>fsm_sdo_request := None, fsm_state := state_ready\<rparr>))"

text \<open>
  Modelled from the spec: \<open>ec_datagram_fprd\<close>, \<open>ec_datagram_fpwr\<close> and
  \<open>ec_datagram_zero\<close> (datagram.c, not among the sources) "form a physical-read
  datagram to (station_address, address, size)", the same for a write, and zero the
  payload (section 4.5).
\<close>

definition ec_datagram_fprd :: "ec_datagram_t \<Rightarrow> 16 word \<Rightarrow> 16 word \<Rightarrow> nat \<Rightarrow> ec_datagram_t" where
  "ec_datagram_fprd datagram station_address mem_address data_size =
     datagram\<lparr>dg_type := EC_DATAGRAM_FPRD, dg_address := (station_address, mem_address),
              dg_data_size := data_size\<rparr>"

definition ec_datagram_fpwr :: "ec_datagram_t \<Rightarrow> 16 word \<Rightarrow> 16 word \<Rightarrow> nat \<Rightarrow> ec_datagram_t" where
  "ec_datagram_fpwr datagram station_address mem_address data_size =
     datagram\<lparr>dg_type := EC_DATAGRAM_FPWR, dg_address := (station_address, mem_address),
              dg_data_size := data_size\<rparr>"

definition ec_datagram_zero :: "ec_datagram_t \<Rightarrow> ec_datagram_t" where
  "ec_datagram_zero datagram =
     datagram\<lparr>dg_data := replicate (dg_data_size datagram) 0
                            @ drop (dg_data_size datagram) (dg_data datagram)\<rparr>"

text \<open>
  \<open>ec_fsm_slave_action_process_reg\<close> (fsm_slave.c:265). The two \<open>memcpy\<close> calls of the
  register path copy \<open>transfer_size\<close> bytes between the request's buffer and the
  datagram's payload.
\<close>

definition ec_fsm_slave_action_process_reg :: "fsm_world \<Rightarrow> int \<times> fsm_world" where
  "ec_fsm_slave_action_process_reg w0 =
     (let w1 = w0\<lparr>fsm_reg_request := None\<rparr>;
          w2 = (case slave_config w1 of
                  None \<Rightarrow> w1
                | Some reg_requests \<Rightarrow>
                    (case find (\<lambda>reg. reg_state (reg_request w1 reg) = EC_INT_REQUEST_QUEUED)
                            reg_requests of
                       None \<Rightarrow> w1
                     | Some reg \<Rightarrow> w1\<lparr>fsm_reg_request := Some reg\<rparr>));
          w = (case slave_reg_requests w2 of
                 [] \<Rightarrow> w2
               | first # rest \<Rightarrow>
                   if fsm_reg_request w2 = None
                   then w2\<lparr>fsm_reg_request := Some first, slave_reg_requests := rest\<rparr>
                   else w2)
      in case fsm_reg_request w of
           None \<Rightarrow> (0, w)
         | Some reg \<Rightarrow>
             if ack_err (slave_current_state w) then
               (1, (call (wake_up reg_queue)
                      (w\<lparr>reg_request :=
                           (reg_request w)
                             (reg := (reg_request w reg)\<lparr>reg_state := EC_INT_REQUEST_FAILURE\<rparr>)\<rparr>))
                    \<lparr>fsm_state := state_idle\<rparr>)
             else
               (let request = (reg_request w reg)\<lparr>reg_state := EC_INT_REQUEST_BUSY\<rparr>;
                    datagram =
                      (if reg_dir request = EC_DIR_INPUT
                       then ec_datagram_zero
                              (ec_datagram_fprd (fsm_datagram w) (slave_station_address w)
                                 (reg_address request) (reg_transfer_size request))
                       else (let dg = ec_datagram_fpwr (fsm_datagram w) (slave_station_address w)
                                        (reg_address request) (reg_transfer_size request)
                             in dg\<lparr>dg_data := take (reg_transfer_size request) (reg_data request)
                                               @ drop (reg_transfer_size request) (dg_data dg)\<rparr>))
                in (1, (call ec_master_queue_external_datagram
                          (w\<lparr>reg_request := (reg_request w)(reg := request),
                             fsm_datagram := datagram\<lparr>dg_device_index := slave_device_index w\<rparr>\<rparr>))
                        \<lparr>fsm_state := state_reg_request\<rparr>)))"

text \<open>\<open>ec_fsm_slave_state_reg_request\<close> (fsm_slave.c:330).\<close>

definition ec_fsm_slave_state_reg_request :: "fsm_world \<Rightarrow> fsm_world" where
  "ec_fsm_slave_state_reg_request w =
     (case fsm_reg_request w of
        None \<Rightarrow> w\<lparr>fsm_state := state_ready\<rparr>
      | Some reg \<Rightarrow>
          if dg_state (fsm_datagram w) \<noteq> EC_DATAGRAM_RECEIVED then
            (call (wake_up reg_queue)
               (w\<lparr>reg_request :=
                    (reg_request w)
                      (reg := (reg_request w reg)\<lparr>reg_state := EC_INT_REQUEST_FAILURE\<rparr>)\<rparr>))
              \<lparr>fsm_state := state_ready\<rparr>
          else
            (let request = reg_request w reg;
                 request' =
                   (if dg_working_counter (fsm_datagram w) = 1 then
                      (if reg_dir request = EC_DIR_INPUT
                       then request\<lparr>reg_data :=
                              take (reg_transfer_size request) (dg_data (fsm_datagram w))
                                @ drop (reg_transfer_size request) (reg_data request)\<rparr>
                       else request)\<lparr>reg_state := EC_INT_REQUEST_SUCCESS\<rparr>
                    else request\<lparr>reg_state := EC_INT_REQUEST_FAILURE\<rparr>)
             in (call (wake_up reg_queue) (w\<lparr>reg_request := (reg_request w)(reg := request')\<rparr>))
                  \<lparr>fsm_state := state_ready\<rparr>))"

text \<open>\<open>ec_fsm_slave_action_process_foe\<close> (fsm_slave.c:378).\<close>

definition ec_fsm_slave_action_process_foe :: "fsm_world \<Rightarrow> int \<times> fsm_world" where
  "ec_fsm_slave_action_process_foe w0 =
     (case slave_foe_requests w0 of
        [] \<Rightarrow> (0, w0)
      | request # rest \<Rightarrow>
          (let w = w0\<lparr>slave_foe_requests := rest\<rparr> in
           if ack_err (slave_current_state w) then
             (0, call (wake_up sdo_queue)
                   (w\<lparr>foe_request_state :=
                        (foe_request_state w)(request := EC_INT_REQUEST_FAILURE)\<rparr>))
           else
             (1, call ec_master_queue_external_datagram
                   (call ec_fsm_foe_exec
                      (call (ec_fsm_foe_transfer request)
                         (w\<lparr>foe_request_state :=
                              (foe_request_state w)(request := EC_INT_REQUEST_BUSY),
                            fsm_foe_request := Some request,
                            fsm_state := state_foe_request\<rparr>))))))"

text \<open>\<open>ec_fsm_slave_state_foe_request\<close> (fsm_slave.c:417).\<close>

definition ec_fsm_slave_state_foe_request :: "sub_fsm_t \<Rightarrow> fsm_world \<Rightarrow> fsm_world" where
  "ec_fsm_slave_state_foe_request sub w0 =
     (let w = call ec_fsm_foe_exec w0 in
      if sub_exec sub then call ec_master_queue_external_datagram w
      else
        (case fsm_foe_request w of
           None \<Rightarrow> w\<lparr>null_dereference := True\<rparr>
         | Some request \<Rightarrow>
             (call (wake_up foe_queue)
                (w\<lparr>foe_request_state :=
                     (foe_request_state w)
                       (request := (if \<not> sub_success sub then EC_INT_REQUEST_FAILURE
                                    else EC_INT_REQUEST_SUCCESS))\<rparr>))
               \<lparr>fsm_foe_request := None, fsm_state := state_ready\<rparr>))"

text \<open>
  \<open>ec_fsm_slave_action_process_soe\<close> (fsm_slave.c:455). \<open>fsm->soe_request\<close> points to
  the member \<open>req\<close> of the queued object; both go by the object's address.
\<close>

definition ec_fsm_slave_action_process_soe :: "fsm_world \<Rightarrow> int \<times> fsm_world" where
  "ec_fsm_slave_action_process_soe w0 =
     (case slave_soe_requests w0 of
        [] \<Rightarrow> (0, w0)
      | req # rest \<Rightarrow>
          (let w = w0\<lparr>slave_soe_requests := rest\<rparr> in
           if ack_err (slave_current_state w) then
             (0, (call (wake_up soe_queue)
                    (w\<lparr>soe_request_state :=
                         (soe_request_state w)(req := EC_INT_REQUEST_FAILURE)\<rparr>))
                  \<lparr>fsm_state := state_idle\<rparr>)
           else if al_state (slave_current_state w) = EC_SLAVE_STATE_INIT then
             (0, (call (wake_up soe_queue)
                    (w\<lparr>soe_request_state :=
                         (soe_request_state w)(req := EC_INT_REQUEST_FAILURE)\<rparr>))
                  \<lparr>fsm_state := state_idle\<rparr>)
           else
             (1, call ec_master_queue_external_datagram
                   (call ec_fsm_soe_exec
                      (call (ec_fsm_soe_transfer req)
                         (w\<lparr>soe_request_state :=
                              (soe_request_state w)(req := EC_INT_REQUEST_BUSY),
                            fsm_soe_request := Some req,
                            fsm_state := state_soe_request\<rparr>))))))"

text \<open>\<open>ec_fsm_slave_state_soe_request\<close> (fsm_slave.c:503).\<close>

definition ec_fsm_slave_state_soe_request :: "sub_fsm_t \<Rightarrow> fsm_world \<Rightarrow> fsm_world" where
  "ec_fsm_slave_state_soe_request sub w0 =
     (let w = call ec_fsm_soe_exec w0 in
      if sub_exec sub then call ec_master_queue_external_datagram w
      else
        (case fsm_soe_request w of
           None \<Rightarrow> w\<lparr>null_dereference := True\<rparr>
         | Some request \<Rightarrow>
             (call (wake_up soe_queue)
                (w\<lparr>soe_request_state :=
                     (soe_request_state w)
                       (request := (if \<not> sub_success sub then EC_INT_REQUEST_FAILURE
                                    else EC_INT_REQUEST_SUCCESS))\<rparr>))
               \<lparr>fsm_soe_request := None, fsm_state := state_ready\<rparr>))"

text \<open>\<open>ec_fsm_slave_state_ready\<close> (fsm_slave.c:147): the four queues in their order.\<close>

definition ec_fsm_slave_state_ready :: "fsm_world \<Rightarrow> fsm_world" where
  "ec_fsm_slave_state_ready w0 =
     (case ec_fsm_slave_action_process_sdo w0 of
        (sdo, w1) \<Rightarrow>
          if sdo \<noteq> 0 then w1
          else
            (case ec_fsm_slave_action_process_reg w1 of
               (reg, w2) \<Rightarrow>
                 if reg \<noteq> 0 then w2
                 else
                   (case ec_fsm_slave_action_process_foe w2 of
                      (foe, w3) \<Rightarrow>
                        if foe \<noteq> 0 then w3
                        else snd (ec_fsm_slave_action_process_soe w3))))"

text \<open>
  \<open>ec_fsm_slave_exec\<close> (fsm_slave.c:101): nothing happens while the datagram is
  queued or sent; otherwise the state function \<open>fsm->state\<close> runs.
\<close>

definition ec_fsm_slave_exec :: "sub_fsm_t \<Rightarrow> fsm_world \<Rightarrow> fsm_world" where
  "ec_fsm_slave_exec sub w =
     (if dg_state (fsm_datagram w) = EC_DATAGRAM_SENT
         \<or> dg_state (fsm_datagram w) = EC_DATAGRAM_QUEUED
      then w
      else
        (case fsm_state w of
           state_idle \<Rightarrow> ec_fsm_slave_state_idle w
         | state_ready \<Rightarrow> ec_fsm_slave_state_ready w
         | state_sdo_request \<Rightarrow> ec_fsm_slave_state_sdo_request sub w
         | state_reg_request \<Rightarrow> ec_fsm_slave_state_reg_request w
         | state_foe_request \<Rightarrow> ec_fsm_slave_state_foe_request sub w
         | state_soe_request \<Rightarrow> ec_fsm_slave_state_soe_request sub w))"

section \<open>Registration, and the vocabulary of the statements\<close>

text \<open>
  Modelled from the spec: registration. \<open>ec_fmmu_config_init\<close> (fmmu_config.c, not
  among the sources) gives a new FMMU configuration its slave configuration,
  direction and size, and as logical start address its "intra-domain offset" (section
  4.2), the size of the domain so far; it then adds it to the domain.
\<close>

definition ec_fmmu_config_init ::
  "ec_domain_t \<Rightarrow> nat \<times> ec_direction_t \<times> nat \<Rightarrow> ec_domain_t" where
  "ec_fmmu_config_init domain reg =
     (case reg of
        (sc, dir, data_size) \<Rightarrow>
          ec_domain_add_fmmu_config domain
            \<lparr>fmmu_sc = sc, fmmu_dir = dir,
             fmmu_logical_start_address = of_nat (dom_data_size domain),
             fmmu_data_size = data_size\<rparr>)"

text \<open>A fresh domain after the given registrations, in their order.\<close>

definition registered :: "(nat \<times> ec_direction_t \<times> nat) list \<Rightarrow> ec_domain_t" where
  "registered regs = foldl ec_fmmu_config_init (ec_domain_init 0) regs"




text \<open>The domain's expected working counter is the 16-bit sum over its pairs.\<close>

definition ewc_ok :: "ec_domain_t \<Rightarrow> bool" where
  "ewc_ok d \<longleftrightarrow>
     dom_expected_working_counter d =
       (\<Sum>p\<leftarrow>dom_datagram_pairs d. of_nat (dp_expected_working_counter p))"

text \<open>Command and expected working counter of a pair are those of the table.\<close>

definition table_ok :: "ec_datagram_pair_t \<Rightarrow> bool" where
  "table_ok p \<longleftrightarrow>
     dp_type p = map_option fst (pair_command (dp_used p)) \<and>
     dp_expected_working_counter p =
       (case pair_command (dp_used p) of None \<Rightarrow> 0 | Some (c, wc) \<Rightarrow> wc)"

text \<open>
  The payload window of a pair lies inside an image of \<open>T\<close> bytes and inside the
  pair's two buffers.
\<close>

definition pair_within :: "nat \<Rightarrow> ec_datagram_pair_t \<Rightarrow> bool" where
  "pair_within T p \<longleftrightarrow>
     dp_main_data p + dp_data_size p \<le> T \<and>
     dp_data_size p \<le> length (dp_backup_data p) \<and>
     dp_data_size p \<le> length (dp_send_buffer p)"

definition pair_in_bounds :: "byte list \<Rightarrow> ec_datagram_pair_t \<Rightarrow> bool" where
  "pair_in_bounds img p \<longleftrightarrow> pair_within (length img) p"

text \<open>
  Main payload, backup payload and send buffer of a pair hold the same bytes over the
  pair's payload window.
\<close>

definition payloads_equal :: "byte list \<Rightarrow> ec_datagram_pair_t \<Rightarrow> bool" where
  "payloads_equal img p \<longleftrightarrow>
     (\<exists>bytes. window img (dp_main_data p) (dp_data_size p) = Some bytes \<and>
              window (dp_backup_data p) 0 (dp_data_size p) = Some bytes \<and>
              window (dp_send_buffer p) 0 (dp_data_size p) = Some bytes)"


section \<open>Concrete inputs\<close>

text \<open>
  \<open>EC_MAX_DATA_SIZE\<close> as the EtherCAT frame layout gives it: 1500 bytes of Ethernet
  payload less the frame header (2), the datagram header (10) and the working counter
  (2).
\<close>

definition frame_max_data_size :: nat where
  "frame_max_data_size = 1486"

text \<open>
  A domain with one input FMMU of 4 bytes, finished at base address \<open>0x1000\<close> with
  every allocation succeeding, after a cycle in which the main link brought nothing
  (image and send buffer are zero) and the backup link brought the bytes 1, 2, 3, 4.
\<close>

definition redundancy_domain :: ec_domain_t where
  "redundancy_domain =
     (let d = fst (snd (ec_domain_finish [True, True, True] frame_max_data_size
                          (registered [(1, EC_DIR_INPUT, 4)]) 0x1000))
      in d\<lparr>dom_datagram_pairs :=
             map (\<lambda>p. p\<lparr>dp_backup_data := [1, 2, 3, 4]\<rparr>) (dom_datagram_pairs d)\<rparr>)"

text \<open>
  A domain with one output FMMU of 4 bytes, finished likewise, into whose image the
  application has written \<open>aa bb cc dd\<close>.
\<close>

definition output_domain :: ec_domain_t where
  "output_domain =
     (fst (snd (ec_domain_finish [True, True, True] frame_max_data_size
                  (registered [(1, EC_DIR_OUTPUT, 4)]) 0x1000)))
       \<lparr>dom_data := Some [0xaa, 0xbb, 0xcc, 0xdd]\<rparr>"

text \<open>
  A domain with three output FMMUs of three slave configurations, of 1000, 1000 and
  400 bytes, finished at base address 0: two pairs, of 1000 and 1400 bytes. On the
  wire the first pair comes back with working counter 1 and the second with 2.
\<close>

definition output_only_domain :: ec_domain_t where
  "output_only_domain =
     fst (snd (ec_domain_finish [True, True, True, True, True] frame_max_data_size
                 (registered [(1, EC_DIR_OUTPUT, 1000), (2, EC_DIR_OUTPUT, 1000),
                              (3, EC_DIR_OUTPUT, 400)]) 0))"

definition output_only_wc :: "ec_datagram_pair_t \<Rightarrow> nat" where
  "output_only_wc p = (if dp_address p = 0 then 1 else 2)"

text \<open>
  A slave in OP without error flag, with empty request queues and no configuration,
  and its state machine after \<open>ec_fsm_slave_init\<close> on zeroed memory and
  \<open>ec_fsm_slave_ready\<close>. Every request object is queued; a register request writes the
  two bytes 1, 2 to address \<open>0x0130\<close>.
\<close>

definition ready_world :: fsm_world where
  "ready_world =
     ec_fsm_slave_ready (ec_fsm_slave_init
       \<lparr>fsm_state = state_idle,
        fsm_sdo_request = None, fsm_reg_request = None,
        fsm_foe_request = None, fsm_soe_request = None,
        fsm_datagram =
          \<lparr>dg_type = EC_DATAGRAM_FPRD, dg_address = (0, 0), dg_data = [], dg_data_size = 0,
           dg_device_index = 0, dg_state = EC_DATAGRAM_INIT, dg_working_counter = 0\<rparr>,
        slave_current_state = \<lparr>al_state = EC_SLAVE_STATE_OP, ack_err = False\<rparr>,
        slave_station_address = 1001,
        slave_device_index = 0,
        slave_config = None,
        slave_sdo_requests = [], slave_reg_requests = [],
        slave_foe_requests = [], slave_soe_requests = [],
        sdo_request_state = (\<lambda>request. EC_INT_REQUEST_QUEUED),
        foe_request_state = (\<lambda>request. EC_INT_REQUEST_QUEUED),
        soe_request_state = (\<lambda>request. EC_INT_REQUEST_QUEUED),
        reg_request =
          (\<lambda>request. \<lparr>reg_dir = EC_DIR_OUTPUT, reg_address = 0x0130, reg_transfer_size = 2,
                        reg_data = [1, 2], reg_state = EC_INT_REQUEST_QUEUED\<rparr>),
        calls = [],
        null_dereference = False\<rparr>)"

text \<open>The datagram of the state machine comes back received, with a working counter.\<close>

definition datagram_received :: "16 word \<Rightarrow> fsm_world \<Rightarrow> fsm_world" where
  "datagram_received wc w =
     w\<lparr>fsm_datagram :=
         (fsm_datagram w)\<lparr>dg_state := EC_DATAGRAM_RECEIVED, dg_working_counter := wc\<rparr>\<rparr>"

section \<open>Packing: the loop of \<open>ec_domain_finish\<close>\<close>



lemma add_pair_result:
  assumes "ec_domain_add_datagram_pair a d lo sz dat u = (ret, d', a')"
  shows "(ret < 0 \<and> d' = d) \<or>
         (ret = 0 \<and> (\<exists>p. d' = d\<lparr>dom_expected_working_counter :=
                                   dom_expected_working_counter d + of_nat (dp_expected_working_counter p),
                                 dom_datagram_pairs := dom_datagram_pairs d @ [p]\<rparr>
                     \<and> dp_data_size p = sz \<and> dp_used p = u \<and> dp_address p = lo \<and> dp_main_data p = dat
                     \<and> dp_type p = map_option fst (pair_command u)
                     \<and> dp_expected_working_counter p = (case pair_command u of None \<Rightarrow> 0 | Some (c, wc) \<Rightarrow> wc)
                     \<and> length (dp_backup_data p) = sz \<and> length (dp_send_buffer p) = sz))"
  using assms
  by (cases a; cases "tl a")
     (auto simp: ec_domain_add_datagram_pair_def ec_datagram_pair_init_def ENOMEM_def
           split: prod.splits bool.splits sum.splits if_splits)

lemma finish_fmmus_Cons_cases:
  assumes run: "finish_fmmus M b i (f # fs) v d a = res"
  obtains
    (nocut) fm d1 v1 where
      "fm = f\<lparr>fmmu_logical_start_address := fmmu_logical_start_address f + b\<rparr>"
      "d1 = d\<lparr>dom_fmmu_configs := (dom_fmmu_configs d)[i := fm]\<rparr>"
      "v1 = (if shall_count fm (datagram_first_fmmu v)
             then v\<lparr>datagram_used := used_incr (fmmu_dir fm) (datagram_used v)\<rparr> else v)"
      "\<not> M < datagram_size v + fmmu_data_size f"
      "finish_fmmus M b (i + 1) fs
         (v1\<lparr>datagram_size := datagram_size v + fmmu_data_size f,
             datagram_first_fmmu := datagram_first_fmmu v @ [fm]\<rparr>) d1 a = res"
  | (fail) fm d1 v1 r dd aa where
      "fm = f\<lparr>fmmu_logical_start_address := fmmu_logical_start_address f + b\<rparr>"
      "d1 = d\<lparr>dom_fmmu_configs := (dom_fmmu_configs d)[i := fm]\<rparr>"
      "v1 = (if shall_count fm (datagram_first_fmmu v)
             then v\<lparr>datagram_used := used_incr (fmmu_dir fm) (datagram_used v)\<rparr> else v)"
      "M < datagram_size v + fmmu_data_size f"
      "ec_domain_add_datagram_pair a d1 (dom_logical_base_address d + datagram_offset v)
         (datagram_size v) (unat (datagram_offset v)) (datagram_used v1) = (r, dd, aa)"
      "r < 0" "res = (r, v1, dd, aa)"
  | (cut) fm d1 v1 r dd aa where
      "fm = f\<lparr>fmmu_logical_start_address := fmmu_logical_start_address f + b\<rparr>"
      "d1 = d\<lparr>dom_fmmu_configs := (dom_fmmu_configs d)[i := fm]\<rparr>"
      "v1 = (if shall_count fm (datagram_first_fmmu v)
             then v\<lparr>datagram_used := used_incr (fmmu_dir fm) (datagram_used v)\<rparr> else v)"
      "M < datagram_size v + fmmu_data_size f"
      "ec_domain_add_datagram_pair a d1 (dom_logical_base_address d + datagram_offset v)
         (datagram_size v) (unat (datagram_offset v)) (datagram_used v1) = (r, dd, aa)"
      "\<not> r < 0"
      "finish_fmmus M b (i + 1) fs
         \<lparr>datagram_offset = datagram_offset v + of_nat (datagram_size v),
          datagram_size = fmmu_data_size f,
          datagram_count = datagram_count v + 1,
          datagram_used = (0, 0),
          datagram_first_fmmu = [fm]\<rparr> dd aa = res"
proof -
  define fm where "fm = f\<lparr>fmmu_logical_start_address := fmmu_logical_start_address f + b\<rparr>"
  define d1 where "d1 = d\<lparr>dom_fmmu_configs := (dom_fmmu_configs d)[i := fm]\<rparr>"
  define v1 where "v1 = (if shall_count fm (datagram_first_fmmu v)
             then v\<lparr>datagram_used := used_incr (fmmu_dir fm) (datagram_used v)\<rparr> else v)"
  have v1s: "datagram_size v1 = datagram_size v" "datagram_offset v1 = datagram_offset v"
    "datagram_first_fmmu v1 = datagram_first_fmmu v" "datagram_count v1 = datagram_count v"
    by (simp_all add: v1_def)
  have fms: "fmmu_data_size fm = fmmu_data_size f" by (simp add: fm_def)
  have d1s: "dom_logical_base_address d1 = dom_logical_base_address d" by (simp add: d1_def)
  obtain r dd aa where ap: "ec_domain_add_datagram_pair a d1 (dom_logical_base_address d + datagram_offset v)
         (datagram_size v) (unat (datagram_offset v)) (datagram_used v1) = (r, dd, aa)"
    by (metis prod_cases3)
  have step: "finish_fmmus M b i (f # fs) v d a =
     (if datagram_size v1 + fmmu_data_size fm > M then
           (case ec_domain_add_datagram_pair a d1
                   (dom_logical_base_address d1 + datagram_offset v1)
                   (datagram_size v1) (unat (datagram_offset v1)) (datagram_used v1) of
              (ret, domain', a') \<Rightarrow>
                if ret < 0 then (ret, v1, domain', a')
                else finish_fmmus M b (i + 1) fs
                       \<lparr>datagram_offset = datagram_offset v1 + of_nat (datagram_size v1),
                        datagram_size = 0 + fmmu_data_size fm,
                        datagram_count = datagram_count v1 + 1,
                        datagram_used = (0, 0),
                        datagram_first_fmmu = [fm]\<rparr>
                       domain' a')
         else finish_fmmus M b (i + 1) fs
                (v1\<lparr>datagram_size := datagram_size v1 + fmmu_data_size fm,
                   datagram_first_fmmu := datagram_first_fmmu v1 @ [fm]\<rparr>)
                d1 a)"
    unfolding fm_def d1_def v1_def by (simp only: finish_fmmus.simps Let_def)
  show thesis
  proof (cases "M < datagram_size v + fmmu_data_size f")
    case False
    with step run have "finish_fmmus M b (i + 1) fs
         (v1\<lparr>datagram_size := datagram_size v + fmmu_data_size f,
             datagram_first_fmmu := datagram_first_fmmu v @ [fm]\<rparr>) d1 a = res"
      by (simp only: v1s fms d1s if_False)
    with False show thesis by (rule nocut [OF fm_def d1_def v1_def])
  next
    case True
    show thesis
    proof (cases "r < 0")
      case neg: True
      with True step run ap have "res = (r, v1, dd, aa)"
        by (simp only: v1s fms d1s if_True prod.case)
      with True ap neg show thesis by (intro fail [OF fm_def d1_def v1_def])
    next
      case nneg: False
      with True step run ap have "finish_fmmus M b (i + 1) fs
         \<lparr>datagram_offset = datagram_offset v + of_nat (datagram_size v),
          datagram_size = fmmu_data_size f,
          datagram_count = datagram_count v + 1,
          datagram_used = (0, 0),
          datagram_first_fmmu = [fm]\<rparr> dd aa = res"
        by (simp only: v1s fms d1s if_True if_False prod.case add_0)
      with True ap nneg show thesis by (intro cut [OF fm_def d1_def v1_def])
    qed
  qed
qed

lemma ec_domain_finish_cases:
  assumes run: "ec_domain_finish a M d base = (ret, d', a')"
  obtains
    (nomem) "ret < 0" "dom_datagram_pairs d' = dom_datagram_pairs d"
      "dom_expected_working_counter d' = dom_expected_working_counter d"
  | (packed) d1 a1 r v d2 a2 where
      "dom_datagram_pairs d1 = dom_datagram_pairs d"
      "dom_expected_working_counter d1 = dom_expected_working_counter d"
      "finish_fmmus M base 0 (dom_fmmu_configs d) finish_vars0 d1 a1 = (r, v, d2, a2)"
      "d' = d2 \<and> (r < 0 \<or> datagram_size v = 0) \<or>
       \<not> r < 0 \<and> datagram_size v \<noteq> 0 \<and>
         (\<exists>r3. ec_domain_add_datagram_pair a2 d2 (dom_logical_base_address d2 + datagram_offset v)
                  (datagram_size v) (unat (datagram_offset v)) (datagram_used v) = (r3, d', a'))"
proof -
  obtain ok d1 a1 where al: "finish_alloc a (d\<lparr>dom_logical_base_address := base\<rparr>) = (ok, d1, a1)"
    by (metis prod_cases3)
  have d1: "dom_datagram_pairs d1 = dom_datagram_pairs d"
      "dom_expected_working_counter d1 = dom_expected_working_counter d"
      "dom_fmmu_configs d1 = dom_fmmu_configs d"
    using al by (auto simp: finish_alloc_def split: if_splits prod.splits)
  obtain r v d2 a2 where lp: "finish_fmmus M base 0 (dom_fmmu_configs d) finish_vars0 d1 a1 = (r, v, d2, a2)"
    by (metis prod_cases4)
  obtain r3 d3 a3 where ap: "ec_domain_add_datagram_pair a2 d2 (dom_logical_base_address d2 + datagram_offset v)
                  (datagram_size v) (unat (datagram_offset v)) (datagram_used v) = (r3, d3, a3)"
    by (metis prod_cases3)
  have unf: "ec_domain_finish a M d base =
     (if \<not> ok then (- ENOMEM, d1, a1)
      else if r < 0 then (r, d2, a2)
      else if datagram_size v \<noteq> 0 then (if r3 < 0 then (r3, d3, a3) else (0, d3, a3))
      else (0, d2, a2))"
    using al lp ap d1(3)
    by (simp add: ec_domain_finish_def)
  show thesis
  proof (cases ok)
    case False
    with unf run have "ret = - ENOMEM" "d' = d1" by simp_all
    then show thesis using d1 by (intro nomem) (simp_all add: ENOMEM_def)
  next
    case True
    show thesis
    proof (rule packed [OF d1(1) d1(2) lp])
      show "d' = d2 \<and> (r < 0 \<or> datagram_size v = 0) \<or>
       \<not> r < 0 \<and> datagram_size v \<noteq> 0 \<and>
         (\<exists>r3. ec_domain_add_datagram_pair a2 d2 (dom_logical_base_address d2 + datagram_offset v)
                  (datagram_size v) (unat (datagram_offset v)) (datagram_used v) = (r3, d', a'))"
        using True unf run ap by (auto split: if_splits)
    qed
  qed
qed

lemma ewc_ok_fmmus [simp]: "ewc_ok (d\<lparr>dom_fmmu_configs := fs\<rparr>) = ewc_ok d"
  by (simp add: ewc_ok_def)






lemma add_pair_all:
  assumes ap: "ec_domain_add_datagram_pair a d lo sz dat u = (ret, d', a')"
    and old: "\<forall>p\<in>set (dom_datagram_pairs d). R p"
    and new: "\<And>p. dp_data_size p = sz \<Longrightarrow> dp_used p = u \<Longrightarrow> table_ok p \<Longrightarrow>
                dp_main_data p = dat \<Longrightarrow> length (dp_backup_data p) = sz \<Longrightarrow>
                length (dp_send_buffer p) = sz \<Longrightarrow> R p"
  shows "\<forall>p\<in>set (dom_datagram_pairs d'). R p"
  using add_pair_result [OF ap] old new
  by (auto simp: table_ok_def)

lemma finish_fmmus_sizes:
  "finish_fmmus M b i fs v d a = (ret, v', d', a') \<Longrightarrow>
   \<forall>f\<in>set fs. fmmu_data_size f \<le> M \<Longrightarrow> datagram_size v \<le> M \<Longrightarrow>
   \<forall>p\<in>set (dom_datagram_pairs d). dp_data_size p \<le> M \<Longrightarrow>
   datagram_size v' \<le> M \<and> (\<forall>p\<in>set (dom_datagram_pairs d'). dp_data_size p \<le> M)"
proof (induction fs arbitrary: i v d a)
  case Nil
  then show ?case by simp
next
  case (Cons f fs)
  from Cons.prems(2) have fs: "\<forall>f\<in>set fs. fmmu_data_size f \<le> M" and f: "fmmu_data_size f \<le> M"
    by simp_all
  from Cons.prems(1) show ?case
  proof (cases rule: finish_fmmus_Cons_cases)
    case (nocut fm d1 v1)
    have "\<forall>p\<in>set (dom_datagram_pairs d1). dp_data_size p \<le> M"
      using Cons.prems(4) by (simp add: nocut(2))
    moreover have "datagram_size (v1\<lparr>datagram_size := datagram_size v + fmmu_data_size f,
             datagram_first_fmmu := datagram_first_fmmu v @ [fm]\<rparr>) \<le> M"
      using nocut(4) by simp
    ultimately show ?thesis using Cons.IH [OF nocut(5) fs] by blast
  next
    case (fail fm d1 v1 r dd aa)
    have "\<forall>p\<in>set (dom_datagram_pairs d1). dp_data_size p \<le> M"
      using Cons.prems(4) by (simp add: fail(2))
    with fail(5) have "\<forall>p\<in>set (dom_datagram_pairs dd). dp_data_size p \<le> M"
      by (rule add_pair_all) (simp add: Cons.prems(3))
    moreover have "datagram_size v1 \<le> M" using Cons.prems(3) by (simp add: fail(3))
    ultimately show ?thesis using fail(7) by simp
  next
    case (cut fm d1 v1 r dd aa)
    have "\<forall>p\<in>set (dom_datagram_pairs d1). dp_data_size p \<le> M"
      using Cons.prems(4) by (simp add: cut(2))
    with cut(5) have "\<forall>p\<in>set (dom_datagram_pairs dd). dp_data_size p \<le> M"
      by (rule add_pair_all) (simp add: Cons.prems(3))
    then show ?thesis using Cons.IH [OF cut(7) fs] f by simp
  qed
qed







lemma finish_sizes:
  assumes "ec_domain_finish a M d base = (ret, d', a')"
    and "\<forall>p\<in>set (dom_datagram_pairs d). dp_data_size p \<le> M"
    and "\<forall>f\<in>set (dom_fmmu_configs d). fmmu_data_size f \<le> M"
  shows "\<forall>p\<in>set (dom_datagram_pairs d'). dp_data_size p \<le> M"
  using assms(1)
proof (cases rule: ec_domain_finish_cases)
  case nomem
  with assms(2) show ?thesis by simp
next
  case (packed d1 a1 r v d2 a2)
  from assms(2) packed(1) have "\<forall>p\<in>set (dom_datagram_pairs d1). dp_data_size p \<le> M" by simp
  moreover have "datagram_size finish_vars0 \<le> M" by (simp add: finish_vars0_def)
  ultimately have loop: "datagram_size v \<le> M"
      "\<forall>p\<in>set (dom_datagram_pairs d2). dp_data_size p \<le> M"
    using finish_fmmus_sizes [OF packed(3) assms(3)] by simp_all
  from packed(4) consider "d' = d2"
    | r3 where "ec_domain_add_datagram_pair a2 d2 (dom_logical_base_address d2 + datagram_offset v)
        (datagram_size v) (unat (datagram_offset v)) (datagram_used v) = (r3, d', a')"
    by blast
  then show ?thesis
  proof cases
    case 1
    with loop(2) show ?thesis by simp
  next
    case 2
    then show ?thesis using loop(2) by (rule add_pair_all) (use loop(1) in simp)
  qed
qed


text \<open>The pairs of a finished domain lie inside the process image.\<close>

lemma unat_offset_add:
  fixes x :: "32 word"
  assumes "unat x + n < 2 ^ 32"
  shows "unat (x + of_nat n) = unat x + n"
proof -
  have n: "n < 2 ^ 32" using assms by simp
  then have "unat (of_nat n :: 32 word) = n" by (simp add: unat_of_nat)
  then show ?thesis using assms by (simp add: unat_add_lem [THEN iffD1])
qed

lemma finish_fmmus_within:
  "finish_fmmus M b i fs v d a = (ret, v', d', a') \<Longrightarrow>
   unat (datagram_offset v) + datagram_size v + sum_list (map fmmu_data_size fs) \<le> T \<Longrightarrow>
   T < 2 ^ 32 \<Longrightarrow>
   \<forall>p\<in>set (dom_datagram_pairs d). pair_within T p \<Longrightarrow>
   unat (datagram_offset v') + datagram_size v' \<le> T \<and>
   (\<forall>p\<in>set (dom_datagram_pairs d'). pair_within T p)"
proof (induction fs arbitrary: i v d a)
  case Nil
  then show ?case by simp
next
  case (Cons f fs)
  from Cons.prems(1) show ?case
  proof (cases rule: finish_fmmus_Cons_cases)
    case (nocut fm d1 v1)
    have "\<forall>p\<in>set (dom_datagram_pairs d1). pair_within T p"
      using Cons.prems(4) by (simp add: nocut(2))
    moreover have "unat (datagram_offset (v1\<lparr>datagram_size := datagram_size v + fmmu_data_size f,
             datagram_first_fmmu := datagram_first_fmmu v @ [fm]\<rparr>))
        + datagram_size (v1\<lparr>datagram_size := datagram_size v + fmmu_data_size f,
             datagram_first_fmmu := datagram_first_fmmu v @ [fm]\<rparr>)
        + sum_list (map fmmu_data_size fs) \<le> T"
      using Cons.prems(2) by (simp add: nocut(3))
    ultimately show ?thesis using Cons.IH [OF nocut(5) _ Cons.prems(3)] by blast
  next
    case (fail fm d1 v1 r dd aa)
    have "\<forall>p\<in>set (dom_datagram_pairs d1). pair_within T p"
      using Cons.prems(4) by (simp add: fail(2))
    with fail(5) have "\<forall>p\<in>set (dom_datagram_pairs dd). pair_within T p"
      by (rule add_pair_all) (use Cons.prems(2) in \<open>simp add: pair_within_def\<close>)
    moreover have "unat (datagram_offset v1) + datagram_size v1 \<le> T"
      using Cons.prems(2) by (simp add: fail(3))
    ultimately show ?thesis using fail(7) by simp
  next
    case (cut fm d1 v1 r dd aa)
    have "\<forall>p\<in>set (dom_datagram_pairs d1). pair_within T p"
      using Cons.prems(4) by (simp add: cut(2))
    with cut(5) have dd: "\<forall>p\<in>set (dom_datagram_pairs dd). pair_within T p"
      by (rule add_pair_all) (use Cons.prems(2) in \<open>simp add: pair_within_def\<close>)
    have "unat (datagram_offset v) + datagram_size v < 2 ^ 32"
      using Cons.prems(2,3) by simp
    then have "unat (datagram_offset v + of_nat (datagram_size v))
                 = unat (datagram_offset v) + datagram_size v"
      by (rule unat_offset_add)
    then have "unat (datagram_offset \<lparr>datagram_offset = datagram_offset v + of_nat (datagram_size v),
          datagram_size = fmmu_data_size f,
          datagram_count = datagram_count v + 1,
          datagram_used = (0, 0),
          datagram_first_fmmu = [fm]\<rparr>)
       + datagram_size \<lparr>datagram_offset = datagram_offset v + of_nat (datagram_size v),
          datagram_size = fmmu_data_size f,
          datagram_count = datagram_count v + 1,
          datagram_used = (0, 0),
          datagram_first_fmmu = [fm]\<rparr>
       + sum_list (map fmmu_data_size fs) \<le> T"
      using Cons.prems(2) by simp
    from Cons.IH [OF cut(7) this Cons.prems(3) dd] show ?thesis .
  qed
qed

lemma add_pair_data:
  "ec_domain_add_datagram_pair a d lo sz dat u = (ret, d', a') \<Longrightarrow> dom_data d' = dom_data d"
  by (drule add_pair_result) auto

lemma finish_fmmus_data:
  "finish_fmmus M b i fs v d a = (ret, v', d', a') \<Longrightarrow> dom_data d' = dom_data d"
proof (induction fs arbitrary: i v d a)
  case Nil
  then show ?case by simp
next
  case (Cons f fs)
  from Cons.prems(1) show ?case
  proof (cases rule: finish_fmmus_Cons_cases)
    case (nocut fm d1 v1)
    from Cons.IH [OF nocut(5)] show ?thesis by (simp add: nocut(2))
  next
    case (fail fm d1 v1 r dd aa)
    from add_pair_data [OF fail(5)] fail(7) show ?thesis by (simp add: fail(2))
  next
    case (cut fm d1 v1 r dd aa)
    from Cons.IH [OF cut(7)] add_pair_data [OF cut(5)] show ?thesis by (simp add: cut(2))
  qed
qed


lemma finish_alloc_True:
  assumes "finish_alloc a d = (True, d1, a1)" and "dom_data_origin d = EC_ORIG_INTERNAL"
  shows "dom_data_size d \<le> length (process_image d1)"
    and "dom_datagram_pairs d1 = dom_datagram_pairs d"
    and "dom_fmmu_configs d1 = dom_fmmu_configs d"
  using assms
  by (auto simp: finish_alloc_def process_image_def split: if_splits prod.splits)

lemma finish_within:
  assumes run: "ec_domain_finish a M d base = (ret, d', a')"
    and pairs: "dom_datagram_pairs d = []"
    and total: "sum_list (map fmmu_data_size (dom_fmmu_configs d)) \<le> T"
    and T: "T < 2 ^ 32"
  shows "\<forall>p\<in>set (dom_datagram_pairs d'). pair_within T p"
  using run
proof (cases rule: ec_domain_finish_cases)
  case nomem
  with pairs show ?thesis by simp
next
  case (packed d1 a1 r v d2 a2)
  have "\<forall>p\<in>set (dom_datagram_pairs d1). pair_within T p"
    using pairs packed(1) by simp
  moreover have "unat (datagram_offset finish_vars0) + datagram_size finish_vars0
       + sum_list (map fmmu_data_size (dom_fmmu_configs d)) \<le> T"
    using total by (simp add: finish_vars0_def)
  ultimately have loop: "unat (datagram_offset v) + datagram_size v \<le> T"
      "\<forall>p\<in>set (dom_datagram_pairs d2). pair_within T p"
    using finish_fmmus_within [OF packed(3) _ T] by simp_all
  from packed(4) consider "d' = d2"
    | r3 where "ec_domain_add_datagram_pair a2 d2 (dom_logical_base_address d2 + datagram_offset v)
        (datagram_size v) (unat (datagram_offset v)) (datagram_used v) = (r3, d', a')"
    by blast
  then show ?thesis
  proof cases
    case 1
    with loop(2) show ?thesis by simp
  next
    case 2
    then show ?thesis using loop(2)
      by (rule add_pair_all) (use loop(1) in \<open>simp add: pair_within_def\<close>)
  qed
qed

lemma finish_data:
  assumes run: "ec_domain_finish a M d base = (ret, d', a')" and "0 \<le> ret"
    and "dom_data_origin d = EC_ORIG_INTERNAL"
  shows "dom_data_size d \<le> length (process_image d')"
proof -
  obtain ok d1 a1 where al: "finish_alloc a (d\<lparr>dom_logical_base_address := base\<rparr>) = (ok, d1, a1)"
    by (metis prod_cases3)
  obtain r v d2 a2 where lp: "finish_fmmus M base 0 (dom_fmmu_configs d1) finish_vars0 d1 a1 = (r, v, d2, a2)"
    by (metis prod_cases4)
  obtain r3 d3 a3 where ap: "ec_domain_add_datagram_pair a2 d2 (dom_logical_base_address d2 + datagram_offset v)
                  (datagram_size v) (unat (datagram_offset v)) (datagram_used v) = (r3, d3, a3)"
    by (metis prod_cases3)
  have ok: ok using run assms(2) al by (auto simp: ec_domain_finish_def ENOMEM_def split: if_splits)
  with al assms(3) have "dom_data_size d \<le> length (process_image d1)"
    using finish_alloc_True(1) [of a "d\<lparr>dom_logical_base_address := base\<rparr>" d1 a1] by simp
  moreover have "dom_data d2 = dom_data d1" using lp by (rule finish_fmmus_data)
  moreover have "dom_data d3 = dom_data d2" using ap by (rule add_pair_data)
  moreover have "d' = d2 \<or> d' = d3"
    using run al lp ap ok by (auto simp: ec_domain_finish_def split: if_splits)
  ultimately show ?thesis by (auto simp: process_image_def)
qed

lemma registered_step:
  assumes "dom_datagram_pairs d = []" "dom_data_origin d = EC_ORIG_INTERNAL"
    "dom_data_size d = sum_list (map fmmu_data_size (dom_fmmu_configs d))"
  shows "dom_datagram_pairs (foldl ec_fmmu_config_init d regs) = [] \<and>
         dom_data_origin (foldl ec_fmmu_config_init d regs) = EC_ORIG_INTERNAL \<and>
         dom_data_size (foldl ec_fmmu_config_init d regs)
           = sum_list (map fmmu_data_size (dom_fmmu_configs (foldl ec_fmmu_config_init d regs)))"
  using assms
proof (induction regs arbitrary: d)
  case Nil
  then show ?case by simp
next
  case (Cons reg regs)
  show ?case
    unfolding foldl_Cons
    by (rule Cons.IH)
       (use Cons.prems in \<open>auto simp: ec_fmmu_config_init_def ec_domain_add_fmmu_config_def
          split: prod.splits\<close>)
qed

lemma registered_fresh:
  "dom_datagram_pairs (registered regs) = [] \<and>
   dom_data_origin (registered regs) = EC_ORIG_INTERNAL \<and>
   dom_data_size (registered regs)
     = sum_list (map fmmu_data_size (dom_fmmu_configs (registered regs)))"
  unfolding registered_def
  by (rule registered_step) (simp_all add: ec_domain_init_def)

lemma finish_registered_in_bounds:
  assumes run: "ec_domain_finish a M (registered regs) base = (ret, d', a')" and ret: "0 \<le> ret"
    and size: "dom_data_size (registered regs) < 2 ^ 32"
  shows "\<forall>p\<in>set (dom_datagram_pairs d'). pair_in_bounds (process_image d') p"
proof -
  let ?d = "registered regs"
  from registered_fresh [of regs] have fresh: "dom_datagram_pairs ?d = []"
    "dom_data_origin ?d = EC_ORIG_INTERNAL"
    "dom_data_size ?d = sum_list (map fmmu_data_size (dom_fmmu_configs ?d))"
    by simp_all
  have "\<forall>p\<in>set (dom_datagram_pairs d'). pair_within (dom_data_size ?d) p"
    using run fresh(1) _ size by (rule finish_within) (simp add: fresh(3))
  moreover have "dom_data_size ?d \<le> length (process_image d')"
    using run ret fresh(2) by (rule finish_data)
  ultimately show ?thesis by (auto simp: pair_within_def pair_in_bounds_def)
qed

section \<open>Queueing and processing\<close>

lemma memcpy_Some:
  assumes "memcpy dst d src s n = Some r"
  shows "length r = length dst" and "window r d n = Some (take n (drop s src))"
    and "window src s n = Some (take n (drop s src))"
    and "take d r = take d dst" and "drop (d + n) r = drop (d + n) dst"
  using assms by (auto simp: memcpy_def window_def split: if_splits)

lemma queue_pair_Some:
  assumes "queue_pair img p = Some p'"
  shows "dp_main_data p' = dp_main_data p" and "dp_data_size p' = dp_data_size p"
    and "dp_address p' = dp_address p"
    and "window img (dp_main_data p) (dp_data_size p) = Some (take (dp_data_size p) (drop (dp_main_data p) img))"
    and "window (dp_backup_data p') 0 (dp_data_size p) = Some (take (dp_data_size p) (drop (dp_main_data p) img))"
    and "window (dp_send_buffer p') 0 (dp_data_size p) = Some (take (dp_data_size p) (drop (dp_main_data p) img))"
  using assms memcpy_Some [of "dp_send_buffer p" 0 img "dp_main_data p" "dp_data_size p"]
    memcpy_Some [of "dp_backup_data p" 0 img "dp_main_data p" "dp_data_size p"]
  by (auto simp: queue_pair_def split: option.splits)

lemma queue_pairs_equal:
  "queue_pairs img ps = Inr ps' \<Longrightarrow> \<forall>p\<in>set ps'. payloads_equal img p"
proof (induction ps arbitrary: ps')
  case Nil
  then show ?case by simp
next
  case (Cons p ps)
  from Cons.prems obtain q qs where q: "queue_pair img p = Some q"
    and qs: "queue_pairs img ps = Inr qs" and ps': "ps' = q # qs"
    by (auto split: option.splits sum.splits)
  from queue_pair_Some [OF q] have "payloads_equal img q"
    by (simp add: payloads_equal_def)
  with Cons.IH [OF qs] ps' show ?case by simp
qed

lemma queue_pairs_frame:
  "queue_pairs img ps = Inr ps' \<Longrightarrow>
   map dp_main_data ps' = map dp_main_data ps \<and> map dp_data_size ps' = map dp_data_size ps \<and>
   map dp_address ps' = map dp_address ps"
proof (induction ps arbitrary: ps')
  case Nil
  then show ?case by simp
next
  case (Cons p ps)
  from Cons.prems obtain q qs where q: "queue_pair img p = Some q"
    and qs: "queue_pairs img ps = Inr qs" and ps': "ps' = q # qs"
    by (auto split: option.splits sum.splits)
  from queue_pair_Some(1-3) [OF q] Cons.IH [OF qs] ps' show ?case by simp
qed

lemma queue_pairs_total:
  "\<forall>p\<in>set ps. pair_in_bounds img p \<Longrightarrow> \<exists>ps'. queue_pairs img ps = Inr ps'"
proof (induction ps)
  case Nil
  then show ?case by simp
next
  case (Cons p ps)
  then have "pair_in_bounds img p" by simp
  then obtain q where "queue_pair img p = Some q"
    by (auto simp: pair_in_bounds_def pair_within_def queue_pair_def memcpy_def)
  moreover from Cons obtain qs where "queue_pairs img ps = Inr qs" by auto
  ultimately show ?case by simp
qed


lemma queue_equal:
  assumes "\<forall>p\<in>set (dom_datagram_pairs d). pair_in_bounds (process_image d) p"
  shows "\<exists>d' handed. ecrt_domain_queue d = Inr (d', handed) \<and>
           process_image d' = process_image d \<and>
           map dp_main_data (dom_datagram_pairs d') = map dp_main_data (dom_datagram_pairs d) \<and>
           map dp_data_size (dom_datagram_pairs d') = map dp_data_size (dom_datagram_pairs d) \<and>
           (\<forall>p\<in>set (dom_datagram_pairs d'). payloads_equal (process_image d') p)"
proof -
  from queue_pairs_total [OF assms] obtain ps'
    where ps': "queue_pairs (process_image d) (dom_datagram_pairs d) = Inr ps'" by blast
  from queue_pairs_equal [OF ps'] ps' queue_pairs_frame [OF ps'] show ?thesis
    by (simp add: ecrt_domain_queue_def process_image_def)
qed

text \<open>
  After a call of \<open>ec_domain_finish\<close> that did not fail, on a fresh domain with
  registered FMMUs, \<open>ecrt_domain_queue\<close> returns and the payloads are equal.
\<close>

lemma queue_after_finish:
  assumes "ec_domain_finish a M (registered regs) base = (ret, d, a')" and "0 \<le> ret"
    and "dom_data_size (registered regs) < 2 ^ 32"
  shows "\<exists>d' handed. ecrt_domain_queue d = Inr (d', handed) \<and>
           (\<forall>p\<in>set (dom_datagram_pairs d'). payloads_equal (process_image d') p)"
proof -
  from assms have "\<forall>p\<in>set (dom_datagram_pairs d). pair_in_bounds (process_image d) p"
    by (rule finish_registered_in_bounds)
  from queue_equal [OF this] show ?thesis by blast
qed










section \<open>The state machine: aborting and completing requests\<close>

text \<open>
  A request taken from its queue while the slave carries the error flag. The SDO,
  register and SoE paths set it to FAILURE, wake their own queue and make the state
  idle.
\<close>

lemma sdo_abort_ack_err:
  assumes "slave_sdo_requests w = request # rest" and "ack_err (slave_current_state w)"
  shows "fst (ec_fsm_slave_action_process_sdo w) = 0 \<and>
         sdo_request_state (snd (ec_fsm_slave_action_process_sdo w)) request
           = EC_INT_REQUEST_FAILURE \<and>
         calls (snd (ec_fsm_slave_action_process_sdo w)) = calls w @ [wake_up sdo_queue] \<and>
         fsm_state (snd (ec_fsm_slave_action_process_sdo w)) = state_idle \<and>
         fsm_sdo_request (snd (ec_fsm_slave_action_process_sdo w)) = None"
  using assms by (simp add: ec_fsm_slave_action_process_sdo_def call_def)

lemma reg_abort_ack_err:
  assumes "slave_config w = None" and "slave_reg_requests w = reg # rest"
    and "ack_err (slave_current_state w)"
  shows "fst (ec_fsm_slave_action_process_reg w) = 1 \<and>
         reg_state (reg_request (snd (ec_fsm_slave_action_process_reg w)) reg)
           = EC_INT_REQUEST_FAILURE \<and>
         calls (snd (ec_fsm_slave_action_process_reg w)) = calls w @ [wake_up reg_queue] \<and>
         fsm_state (snd (ec_fsm_slave_action_process_reg w)) = state_idle \<and>
         fsm_reg_request (snd (ec_fsm_slave_action_process_reg w)) = Some reg"
  using assms by (simp add: ec_fsm_slave_action_process_reg_def call_def)

lemma soe_abort_ack_err:
  assumes "slave_soe_requests w = req # rest" and "ack_err (slave_current_state w)"
  shows "fst (ec_fsm_slave_action_process_soe w) = 0 \<and>
         soe_request_state (snd (ec_fsm_slave_action_process_soe w)) req
           = EC_INT_REQUEST_FAILURE \<and>
         calls (snd (ec_fsm_slave_action_process_soe w)) = calls w @ [wake_up soe_queue] \<and>
         fsm_state (snd (ec_fsm_slave_action_process_soe w)) = state_idle"
  using assms by (simp add: ec_fsm_slave_action_process_soe_def call_def)

text \<open>The FoE path wakes \<open>sdo_queue\<close> and leaves the state as it is.\<close>

lemma foe_abort_ack_err:
  assumes "slave_foe_requests w = request # rest" and "ack_err (slave_current_state w)"
  shows "fst (ec_fsm_slave_action_process_foe w) = 0 \<and>
         foe_request_state (snd (ec_fsm_slave_action_process_foe w)) request
           = EC_INT_REQUEST_FAILURE \<and>
         calls (snd (ec_fsm_slave_action_process_foe w)) = calls w @ [wake_up sdo_queue] \<and>
         fsm_state (snd (ec_fsm_slave_action_process_foe w)) = fsm_state w"
  using assms by (simp add: ec_fsm_slave_action_process_foe_def call_def)

text \<open>
  A request that is done. The SDO, FoE and SoE state functions clear their reference
  when they return to the ready state; the register state function keeps it.
\<close>

lemma sdo_request_done:
  assumes "\<not> sub_exec sub" and "fsm_sdo_request w = Some request"
  shows "fsm_state (ec_fsm_slave_state_sdo_request sub w) = state_ready \<and>
         fsm_sdo_request (ec_fsm_slave_state_sdo_request sub w) = None"
  using assms by (simp add: ec_fsm_slave_state_sdo_request_def call_def)

lemma foe_request_done:
  assumes "\<not> sub_exec sub" and "fsm_foe_request w = Some request"
  shows "fsm_state (ec_fsm_slave_state_foe_request sub w) = state_ready \<and>
         fsm_foe_request (ec_fsm_slave_state_foe_request sub w) = None"
  using assms by (simp add: ec_fsm_slave_state_foe_request_def call_def)

lemma soe_request_done:
  assumes "\<not> sub_exec sub" and "fsm_soe_request w = Some request"
  shows "fsm_state (ec_fsm_slave_state_soe_request sub w) = state_ready \<and>
         fsm_soe_request (ec_fsm_slave_state_soe_request sub w) = None"
  using assms by (simp add: ec_fsm_slave_state_soe_request_def call_def)

lemma reg_request_done:
  assumes "fsm_reg_request w = Some reg"
  shows "fsm_state (ec_fsm_slave_state_reg_request w) = state_ready \<and>
         fsm_reg_request (ec_fsm_slave_state_reg_request w) = Some reg"
  using assms by (simp add: ec_fsm_slave_state_reg_request_def call_def Let_def)

section \<open>Evaluation of the concrete inputs\<close>

lemmas finish_eval =
  registered_def ec_fmmu_config_init_def ec_domain_init_def ec_domain_add_fmmu_config_def
  ec_domain_finish_def finish_alloc_def finish_vars0_def ec_domain_add_datagram_pair_def
  ec_datagram_pair_init_def pair_command_def frame_max_data_size_def Let_def

lemmas cycle_eval =
  process_image_def window_def memcpy_def queue_pair_def ecrt_domain_queue_def
  ec_datagram_pair_data_changed_def merge_fmmu_def process_first_def process_fmmu_def
  process_vars0_def process_working_counter_def ecrt_domain_process_def

lemmas fsm_eval =
  ready_world_def datagram_received_def call_def ec_fsm_slave_init_def ec_fsm_slave_ready_def
  ec_fsm_slave_state_idle_def ec_fsm_slave_action_process_sdo_def
  ec_fsm_slave_state_sdo_request_def ec_datagram_fprd_def ec_datagram_fpwr_def
  ec_datagram_zero_def ec_fsm_slave_action_process_reg_def ec_fsm_slave_state_reg_request_def
  ec_fsm_slave_action_process_foe_def ec_fsm_slave_state_foe_request_def
  ec_fsm_slave_action_process_soe_def ec_fsm_slave_state_soe_request_def
  ec_fsm_slave_state_ready_def ec_fsm_slave_exec_def Let_def

section \<open>The claims\<close>

subsection \<open>C1: the expected working counter\<close>



subsection \<open>C2: the payload of a pair\<close>

text \<open>
  C2, as the claim states it, fails: an FMMU larger than \<open>EC_MAX_DATA_SIZE\<close> is
  packed into a pair of its own size (the check is the todo note of
  \<open>ec_domain_finish\<close>). Counterexample: one input FMMU of 2000 bytes yields a pair of
  2000 bytes.
\<close>

theorem finish_payload_counterexample:
  "\<not> (\<forall>p\<in>set (dom_datagram_pairs
                 (fst (snd (ec_domain_finish [True, True, True, True, True]
                              frame_max_data_size (registered [(1, EC_DIR_INPUT, 2000)]) 0)))).
        dp_data_size p \<le> frame_max_data_size)"
  by (simp add: finish_eval)

text \<open>
  C2, amended: when no registered FMMU is larger than \<open>EC_MAX_DATA_SIZE\<close>, no pair
  that \<open>ec_domain_finish\<close> emits has a payload larger than \<open>EC_MAX_DATA_SIZE\<close>,
  whatever the call returns.
\<close>

theorem finish_payload_bounded:
  assumes "ec_domain_finish a M d base = (ret, d', a')"
    and "dom_datagram_pairs d = []"
    and "\<forall>f\<in>set (dom_fmmu_configs d). fmmu_data_size f \<le> M"
  shows "\<forall>p\<in>set (dom_datagram_pairs d'). dp_data_size p \<le> M"
  using assms(1) by (rule finish_sizes) (simp_all add: assms(2,3))

text \<open>
  Witness for C2: FMMUs of 1000, 400 and 600 bytes are packed into pairs of 1400 and
  600 bytes.
\<close>

theorem finish_payload_bounded_witness:
  "dom_datagram_pairs
     (registered [(1, EC_DIR_INPUT, 1000), (2, EC_DIR_INPUT, 400), (3, EC_DIR_OUTPUT, 600)]) = [] \<and>
   map fmmu_data_size
     (dom_fmmu_configs
        (registered [(1, EC_DIR_INPUT, 1000), (2, EC_DIR_INPUT, 400), (3, EC_DIR_OUTPUT, 600)]))
     = [1000, 400, 600] \<and>
   map dp_data_size
     (dom_datagram_pairs
        (fst (snd (ec_domain_finish [True, True, True, True, True] frame_max_data_size
                     (registered [(1, EC_DIR_INPUT, 1000), (2, EC_DIR_INPUT, 400),
                                  (3, EC_DIR_OUTPUT, 600)]) 0))))
     = [1400, 600] \<and>
   list_all (\<lambda>p. dp_data_size p \<le> frame_max_data_size)
     (dom_datagram_pairs
        (fst (snd (ec_domain_finish [True, True, True, True, True] frame_max_data_size
                     (registered [(1, EC_DIR_INPUT, 1000), (2, EC_DIR_INPUT, 400),
                                  (3, EC_DIR_OUTPUT, 600)]) 0))))"
proof -
  let ?d = "registered [(1, EC_DIR_INPUT, 1000), (2, EC_DIR_INPUT, 400), (3, EC_DIR_OUTPUT, 600)]"
  let ?r = "ec_domain_finish [True, True, True, True, True] frame_max_data_size ?d 0"
  have run: "?r = (fst ?r, fst (snd ?r), snd (snd ?r))" by simp
  have pairs: "dom_datagram_pairs ?d = []" by (simp add: finish_eval)
  have sizes: "\<forall>f\<in>set (dom_fmmu_configs ?d). fmmu_data_size f \<le> frame_max_data_size"
    by (simp add: finish_eval)
  from finish_payload_bounded [OF run pairs sizes]
  have "list_all (\<lambda>p. dp_data_size p \<le> frame_max_data_size) (dom_datagram_pairs (fst (snd ?r)))"
    by (simp add: list_all_iff)
  then show ?thesis by (simp add: finish_eval)
qed

subsection \<open>C3: the redundancy decision\<close>



subsection \<open>C4: the working counter of the domain\<close>

text \<open>
  C4 does not hold of the code. \<open>ecrt_domain_process\<close> calls
  \<open>ec_datagram_pair_process\<close> for the first pair and, after that, only for the pairs it
  walks to while it looks for the pair of an input FMMU. In the domain of three
  output FMMUs (1000, 1000 and 400 bytes) the second pair is never reached: the pairs
  come back with working counters 1 and 2, whose sum is 3, and the domain's working
  counter becomes 1.
\<close>

theorem process_skips_output_pair:
  "map dp_data_size (dom_datagram_pairs output_only_domain) = [1000, 1400] \<and>
   (\<Sum>p\<leftarrow>dom_datagram_pairs output_only_domain. output_only_wc p) = 3 \<and>
   (\<exists>d'. outcome (ecrt_domain_process output_only_wc 0 250 output_only_domain) = Inr d' \<and>
         dom_working_counter d' = 1 \<and> dom_working_counter_changes d' = 1)"
  by (simp add: output_only_domain_def output_only_wc_def finish_eval cycle_eval)

subsection \<open>C5: the read of the unassigned pointer\<close>

text \<open>
  C5. Whenever the domain has a datagram pair, \<open>ecrt_domain_process\<close> executes the
  read of \<open>fmmu->logical_start_address\<close> of line 442, before any loop has assigned
  \<open>fmmu\<close>.
\<close>

theorem process_reads_unassigned_fmmu:
  assumes "dom_datagram_pairs domain \<noteq> []"
  shows "uninitialised_fmmu_read (ecrt_domain_process pair_process jiffies HZ domain)"
  using assms
  by (cases "dom_datagram_pairs domain")
     (simp_all add: ecrt_domain_process_def process_first_def process_vars0_def)

text \<open>Witness for C5: the domain with one input FMMU has one pair.\<close>

theorem process_reads_unassigned_fmmu_witness:
  "dom_datagram_pairs redundancy_domain \<noteq> [] \<and>
   uninitialised_fmmu_read (ecrt_domain_process (\<lambda>p. 0) 0 250 redundancy_domain)"
proof -
  have pairs: "dom_datagram_pairs redundancy_domain \<noteq> []"
    by (simp add: redundancy_domain_def finish_eval)
  from process_reads_unassigned_fmmu [OF pairs] pairs show ?thesis by simp
qed

subsection \<open>C6: pairs without a counted FMMU\<close>

text \<open>
  C6 does not hold of the code. \<open>ec_domain_finish\<close> counts an FMMU before it tests
  whether the FMMU still fits, so the FMMU that opens a new pair is counted for the
  pair before, and \<open>datagram_used\<close> is reset after it. With two input FMMUs of one slave
  configuration, 1000 bytes each, the second pair is emitted with use counts (0, 0).
\<close>

theorem finish_emits_unused_pair:
  "map dp_used
     (dom_datagram_pairs
        (fst (snd (ec_domain_finish [True, True, True, True, True] frame_max_data_size
                     (registered [(1, EC_DIR_INPUT, 1000), (1, EC_DIR_INPUT, 1000)]) 0))))
     = [(0, 1), (0, 0)] \<and>
   map dp_data_size
     (dom_datagram_pairs
        (fst (snd (ec_domain_finish [True, True, True, True, True] frame_max_data_size
                     (registered [(1, EC_DIR_INPUT, 1000), (1, EC_DIR_INPUT, 1000)]) 0))))
     = [1000, 1000]"
  by (simp add: finish_eval)

subsection \<open>C7: the payloads after queueing\<close>

text \<open>
  C7. For a domain whose pairs have their payload windows inside the image and inside
  their own buffers, as \<open>ec_domain_finish\<close> leaves them (lemma
  \<open>finish_registered_in_bounds\<close>), \<open>ecrt_domain_queue\<close> returns, leaves the image and
  the windows of the pairs as they are, and afterwards the main payload, the backup
  payload and the send buffer of every pair hold the same bytes over the pair's
  payload window.
\<close>

theorem queue_payloads_equal:
  assumes "\<forall>p\<in>set (dom_datagram_pairs d). pair_in_bounds (process_image d) p"
  shows "\<exists>d' handed. ecrt_domain_queue d = Inr (d', handed) \<and>
           process_image d' = process_image d \<and>
           map dp_main_data (dom_datagram_pairs d') = map dp_main_data (dom_datagram_pairs d) \<and>
           map dp_data_size (dom_datagram_pairs d') = map dp_data_size (dom_datagram_pairs d) \<and>
           (\<forall>p\<in>set (dom_datagram_pairs d'). payloads_equal (process_image d') p)"
  using assms by (rule queue_equal)

text \<open>
  Witness for C7: the second scenario of the spec. After queueing, send buffer and
  backup payload hold the bytes \<open>aa bb cc dd\<close> of the image.
\<close>

theorem queue_payloads_equal_witness:
  "list_all (pair_in_bounds (process_image output_domain)) (dom_datagram_pairs output_domain) \<and>
   (\<exists>d' handed. ecrt_domain_queue output_domain = Inr (d', handed) \<and>
      process_image d' = [0xaa, 0xbb, 0xcc, 0xdd] \<and>
      map dp_send_buffer (dom_datagram_pairs d') = [[0xaa, 0xbb, 0xcc, 0xdd]] \<and>
      map dp_backup_data (dom_datagram_pairs d') = [[0xaa, 0xbb, 0xcc, 0xdd]])"
proof -
  have bounds: "\<forall>p\<in>set (dom_datagram_pairs output_domain).
                  pair_in_bounds (process_image output_domain) p"
    by (simp add: output_domain_def finish_eval pair_in_bounds_def pair_within_def
          process_image_def)
  note queue_payloads_equal [OF bounds]
  then show ?thesis
    by (simp add: output_domain_def finish_eval cycle_eval pair_in_bounds_def pair_within_def
          eval_nat_numeral)
qed

subsection \<open>C8: aborting a request of a slave with the error flag\<close>

text \<open>
  C8 does not hold of the code for FoE requests. With the error flag set and one FoE
  request queued, a step of the ready state machine sets the request to FAILURE, but
  wakes \<open>sdo_queue\<close>, not \<open>foe_queue\<close>, and leaves the state machine in the ready
  state. (For SDO, register and SoE requests the matching queue is woken and the
  state becomes idle: lemmas \<open>sdo_abort_ack_err\<close>, \<open>reg_abort_ack_err\<close> and
  \<open>soe_abort_ack_err\<close>.)
\<close>

theorem foe_abort_wrong_queue_and_state:
  "fsm_state (ready_world\<lparr>slave_current_state :=
                             \<lparr>al_state = EC_SLAVE_STATE_PREOP, ack_err = True\<rparr>,
                           slave_foe_requests := [7]\<rparr>) = state_ready \<and>
   foe_request_state
     (ec_fsm_slave_exec sub
        (ready_world\<lparr>slave_current_state :=
                        \<lparr>al_state = EC_SLAVE_STATE_PREOP, ack_err = True\<rparr>,
                      slave_foe_requests := [7]\<rparr>)) 7 = EC_INT_REQUEST_FAILURE \<and>
   calls
     (ec_fsm_slave_exec sub
        (ready_world\<lparr>slave_current_state :=
                        \<lparr>al_state = EC_SLAVE_STATE_PREOP, ack_err = True\<rparr>,
                      slave_foe_requests := [7]\<rparr>)) = [wake_up sdo_queue] \<and>
   fsm_state
     (ec_fsm_slave_exec sub
        (ready_world\<lparr>slave_current_state :=
                        \<lparr>al_state = EC_SLAVE_STATE_PREOP, ack_err = True\<rparr>,
                      slave_foe_requests := [7]\<rparr>)) = state_ready"
  by (simp add: fsm_eval)

subsection \<open>C9: the request references of the state machine\<close>

text \<open>
  C9 does not hold of the code for the register request. The state machine takes the
  register request at address 5, its datagram comes back with working counter 1, and
  the next step completes the request: the state is ready again while
  \<open>fsm->reg_request\<close> still points to the request. With an SDO request at address 9
  queued, the following step starts it, and two request references are set. (The SDO,
  FoE and SoE state functions clear their reference: lemmas \<open>sdo_request_done\<close>,
  \<open>foe_request_done\<close> and \<open>soe_request_done\<close>.)
\<close>

theorem reg_request_reference_stays:
  "fsm_state (ec_fsm_slave_exec sub (ready_world\<lparr>slave_reg_requests := [5]\<rparr>))
     = state_reg_request \<and>
   fsm_state
     (ec_fsm_slave_exec sub
        (datagram_received 1
           (ec_fsm_slave_exec sub (ready_world\<lparr>slave_reg_requests := [5]\<rparr>))))
     = state_ready \<and>
   fsm_reg_request
     (ec_fsm_slave_exec sub
        (datagram_received 1
           (ec_fsm_slave_exec sub (ready_world\<lparr>slave_reg_requests := [5]\<rparr>))))
     = Some 5 \<and>
   fsm_state
     (ec_fsm_slave_exec sub
        ((ec_fsm_slave_exec sub
            (datagram_received 1
               (ec_fsm_slave_exec sub (ready_world\<lparr>slave_reg_requests := [5]\<rparr>))))
           \<lparr>slave_sdo_requests := [9]\<rparr>))
     = state_sdo_request \<and>
   fsm_sdo_request
     (ec_fsm_slave_exec sub
        ((ec_fsm_slave_exec sub
            (datagram_received 1
               (ec_fsm_slave_exec sub (ready_world\<lparr>slave_reg_requests := [5]\<rparr>))))
           \<lparr>slave_sdo_requests := [9]\<rparr>))
     = Some 9 \<and>
   fsm_reg_request
     (ec_fsm_slave_exec sub
        ((ec_fsm_slave_exec sub
            (datagram_received 1
               (ec_fsm_slave_exec sub (ready_world\<lparr>slave_reg_requests := [5]\<rparr>))))
           \<lparr>slave_sdo_requests := [9]\<rparr>))
     = Some 5"
  by (simp add: fsm_eval)

subsection \<open>C10: finishing an empty domain\<close>

text \<open>
  C10. For a domain without FMMU configurations and with data size 0,
  \<open>ec_domain_finish\<close> returns 0 and changes nothing but the logical base address: the
  allocator is untouched (no allocation), no pair is added, and the expected working
  counter is what it was, 0 for a fresh domain.
\<close>

theorem finish_empty:
  assumes "dom_fmmu_configs d = []" and "dom_data_size d = 0"
  shows "ec_domain_finish a M d base = (0, d\<lparr>dom_logical_base_address := base\<rparr>, a)"
  using assms by (simp add: ec_domain_finish_def finish_alloc_def finish_vars0_def)

text \<open>Witness for C10: the domain as \<open>ec_domain_init\<close> leaves it.\<close>

theorem finish_empty_witness:
  "dom_fmmu_configs (ec_domain_init 0) = [] \<and>
   dom_data_size (ec_domain_init 0) = 0 \<and>
   dom_data_origin (ec_domain_init 0) = EC_ORIG_INTERNAL \<and>
   (\<exists>d'. ec_domain_finish [] frame_max_data_size (ec_domain_init 0) 0x1000 = (0, d', []) \<and>
         dom_data d' = None \<and> dom_datagram_pairs d' = [] \<and>
         dom_expected_working_counter d' = 0)"
proof -
  have fmmus: "dom_fmmu_configs (ec_domain_init 0) = []" by (simp add: ec_domain_init_def)
  have size0: "dom_data_size (ec_domain_init 0) = 0" by (simp add: ec_domain_init_def)
  note finish_empty [OF fmmus size0, of "[]" frame_max_data_size "0x1000"]
  then show ?thesis by (simp add: ec_domain_init_def)
qed

end
